theory Spec2Isabelle
  imports Complex_Main "HOL-Library.Sublist"
begin

section \<open>Numbers and strings of the source language\<close>

text \<open>
  The program is TypeScript. A \<^verbatim>\<open>number\<close> is modelled as a \<^typ>\<open>real\<close>: arithmetic is
  exact, and the functions of the analyzer and of the pricing engine are the formulas the
  code computes. The rounding, overflow and NaN of IEEE doubles are modelled apart, in the
  section on double-precision arithmetic, for the functions whose result they decide
  (\<^verbatim>\<open>computeConfidence\<close>, \<^verbatim>\<open>ceilTo1000\<close>, \<^verbatim>\<open>calculateTier3\<close>). Array lengths and loop indices are
  \<^typ>\<open>nat\<close>. A string is a \<^typ>\<open>string\<close>, that is a list of 8-bit characters: text outside
  ASCII is its UTF-8 encoding, and \<^verbatim>\<open>trim\<close> and \<^verbatim>\<open>toLowerCase\<close> act on ASCII only.
  Object tables (\<^verbatim>\<open>Record<string, ...>\<close>) are modelled by their own entries.
\<close>

definition Math_round :: "real \<Rightarrow> real" where
  "Math_round x = of_int \<lfloor>x + 1 / 2\<rfloor>"

definition Math_ceil :: "real \<Rightarrow> real" where
  "Math_ceil x = of_int \<lceil>x\<rceil>"

definition isWhitespace :: "char \<Rightarrow> bool" where
  "isWhitespace c \<longleftrightarrow> c \<in> {CHR '' '', CHR 0x09, CHR 0x0A, CHR 0x0B, CHR 0x0C, CHR 0x0D}"

definition trim :: "string \<Rightarrow> string" where
  "trim s = rev (dropWhile isWhitespace (rev (dropWhile isWhitespace s)))"

definition toLowerChar :: "char \<Rightarrow> char" where
  "toLowerChar c =
     (let n = (of_char c :: nat) in if 65 \<le> n \<and> n \<le> 90 then char_of (n + 32) else c)"

definition toLowerCase :: "string \<Rightarrow> string" where
  "toLowerCase s = map toLowerChar s"

text \<open>\<^verbatim>\<open>s.includes(k)\<close>: \<open>k\<close> occurs in \<open>s\<close> as a contiguous substring.\<close>

definition str_includes :: "string \<Rightarrow> string \<Rightarrow> bool" where
  "str_includes s k \<longleftrightarrow> sublist k s"

text \<open>\<^verbatim>\<open>location.split("/")[0].trim()\<close>: the text before the first slash, trimmed.\<close>

definition extractProvince :: "string \<Rightarrow> string" where
  "extractProvince location = trim (takeWhile (\<lambda>c. c \<noteq> CHR ''/'') location)"


section \<open>Data model\<close>

text \<open>
  \<open>origin\<close>, \<open>destination\<close> and \<open>vehicleType\<close> are fields of several interfaces of the
  source; they are declared once, in \<open>Route\<close>, and the other records extend it. Where
  two interfaces share another field name, the second one carries a prime.
\<close>

record Route =
  origin :: string
  destination :: string
  vehicleType :: string

record PriceDataPoint = Route +
  unitPrice :: real

record FPHInput = Route +
  freightType :: "string option"
  manualAdjustmentRate :: "real option"

datatype FallbackLevel = Province

record RouteMedianResult = Route +
  median :: real
  sampleSize :: nat
  filteredSize :: nat
  q1 :: real
  q3 :: real
  iqr :: real
  lowerBound :: real
  upperBound :: real
  confidenceScore :: real
  isFallback :: bool
  fallbackLevel :: "FallbackLevel option"

datatype DistanceSource = Lookup | Haversine

record RouteDistanceResult =
  distanceKm :: real
  source :: DistanceSource

record Tier1Breakdown =
  fuelCost :: real
  tollCost :: real
  fixedCost :: real
  driverProfit :: real
  subtotal :: real
  distanceKm' :: real
  distanceSource :: DistanceSource

record Tier2Breakdown =
  marketMedian :: "real option"
  adjustmentFactor :: real
  adjustedPrice :: real
  sampleSize' :: nat
  confidenceScore' :: real
  isFallback' :: bool
  hasMarketData :: bool

record Tier3Breakdown =
  companyMarginRate :: real
  companyMargin :: real
  freightRiskRate :: real
  freightRiskSurcharge :: real
  manualAdjustmentRate' :: real
  manualAdjustment :: real
  subtotalBeforeRounding :: real
  finalPrice :: real

record CostVariables =
  fuel_price :: real
  fuel_efficiency :: real
  toll_rate :: real
  vehicle_fixed_cost :: real
  driver_profit_rate :: real
  company_margin_rate :: real
  freight_risk_fragile :: real
  freight_risk_refrigerated :: real
  freight_risk_hazardous :: real


section \<open>Route distance\<close>

text \<open>
  The coordinates and road distances are the literals of the source, written as
  fractions. A corridor key such as \<^verbatim>\<open>"Busan->Seoul"\<close> (with the arrow U+2192) is written
  \<open>corridor ''Busan'' ''Seoul''\<close>.
\<close>

definition PROVINCE_COORDS :: "(string \<times> real \<times> real) list" where
  "PROVINCE_COORDS =
     [(''Seoul'', 375665 / 10000, 126978 / 1000),
      (''Incheon'', 374563 / 10000, 1267052 / 10000),
      (''Gyeonggi'', 374138 / 10000, 1275183 / 10000),
      (''Gangwon'', 378228 / 10000, 1281555 / 10000),
      (''Chungbuk'', 366357 / 10000, 1274917 / 10000),
      (''Chungnam'', 365184 / 10000, 1268 / 10),
      (''Daejeon'', 363504 / 10000, 1273845 / 10000),
      (''Sejong'', 3648 / 100, 127),
      (''Jeonbuk'', 358203 / 10000, 1271089 / 10000),
      (''Jeonnam'', 348161 / 10000, 1264629 / 10000),
      (''Gwangju'', 351595 / 10000, 1268526 / 10000),
      (''Gyeongbuk'', 36576 / 1000, 1285056 / 10000),
      (''Gyeongnam'', 354606 / 10000, 1282132 / 10000),
      (''Daegu'', 358714 / 10000, 1286014 / 10000),
      (''Busan'', 351796 / 10000, 1290756 / 10000),
      (''Ulsan'', 355384 / 10000, 1293114 / 10000),
      (''Jeju'', 334996 / 10000, 1265312 / 10000)]"

text \<open>The rightwards arrow U+2192 of the corridor keys, in UTF-8.\<close>

definition arrow :: string where
  "arrow = [CHR 0xE2, CHR 0x86, CHR 0x92]"

definition corridor :: "string \<Rightarrow> string \<Rightarrow> string" where
  "corridor a b = a @ arrow @ b"

definition ROAD_DISTANCES :: "(string \<times> real) list" where
  "ROAD_DISTANCES =
     [(corridor ''Busan'' ''Seoul'', 325),
      (corridor ''Daegu'' ''Seoul'', 237),
      (corridor ''Daejeon'' ''Seoul'', 140),
      (corridor ''Gwangju'' ''Seoul'', 268),
      (corridor ''Incheon'' ''Seoul'', 28),
      (corridor ''Gyeonggi'' ''Seoul'', 40),
      (corridor ''Gangwon'' ''Seoul'', 133),
      (corridor ''Chungbuk'' ''Seoul'', 120),
      (corridor ''Chungnam'' ''Seoul'', 130),
      (corridor ''Gyeongbuk'' ''Seoul'', 200),
      (corridor ''Gyeongnam'' ''Seoul'', 300),
      (corridor ''Jeonbuk'' ''Seoul'', 200),
      (corridor ''Jeonnam'' ''Seoul'', 290),
      (corridor ''Ulsan'' ''Seoul'', 307),
      (corridor ''Sejong'' ''Seoul'', 120),
      (corridor ''Busan'' ''Daegu'', 88),
      (corridor ''Busan'' ''Ulsan'', 52),
      (corridor ''Busan'' ''Gyeongnam'', 70),
      (corridor ''Daegu'' ''Gyeongbuk'', 50),
      (corridor ''Daegu'' ''Ulsan'', 75),
      (corridor ''Daejeon'' ''Chungbuk'', 60),
      (corridor ''Daejeon'' ''Chungnam'', 40),
      (corridor ''Daejeon'' ''Sejong'', 25),
      (corridor ''Gwangju'' ''Jeonnam'', 45),
      (corridor ''Gwangju'' ''Jeonbuk'', 85),
      (corridor ''Gyeonggi'' ''Incheon'', 30),
      (corridor ''Gyeonggi'' ''Gangwon'', 110),
      (corridor ''Gyeonggi'' ''Chungbuk'', 100),
      (corridor ''Gyeonggi'' ''Chungnam'', 90),
      (corridor ''Gyeongnam'' ''Jeonnam'', 180),
      (corridor ''Jeonbuk'' ''Jeonnam'', 100),
      (corridor ''Jeonbuk'' ''Chungnam'', 90),
      (corridor ''Busan'' ''Gwangju'', 260),
      (corridor ''Busan'' ''Daejeon'', 200),
      (corridor ''Busan'' ''Jeonbuk'', 230),
      (corridor ''Daegu'' ''Daejeon'', 120),
      (corridor ''Daegu'' ''Gwangju'', 185),
      (corridor ''Incheon'' ''Busan'', 350),
      (corridor ''Busan'' ''Jeju'', 450),
      (corridor ''Seoul'' ''Jeju'', 480)]"

definition Math_atan2 :: "real \<Rightarrow> real \<Rightarrow> real" where
  "Math_atan2 y x =
     (if x > 0 then arctan (y / x)
      else if x < 0 \<and> y \<ge> 0 then arctan (y / x) + pi
      else if x < 0 then arctan (y / x) - pi
      else if y > 0 then pi / 2
      else if y < 0 then - (pi / 2)
      else 0)"

definition haversineKm :: "real \<times> real \<Rightarrow> real \<times> real \<Rightarrow> real" where
  "haversineKm p1 p2 =
     (case (p1, p2) of ((lat1, lng1), (lat2, lng2)) \<Rightarrow>
        let R = 6371;
            dLat = ((lat2 - lat1) * pi) / 180;
            dLng = ((lng2 - lng1) * pi) / 180;
            a = (sin (dLat / 2))\<^sup>2
                + cos ((lat1 * pi) / 180) * cos ((lat2 * pi) / 180) * (sin (dLng / 2))\<^sup>2;
            c = 2 * Math_atan2 (sqrt a) (sqrt (1 - a))
        in R * c)"

definition lookupDistance :: "string \<Rightarrow> string \<Rightarrow> real option" where
  "lookupDistance prov1 prov2 =
     (let key1 = prov1 @ arrow @ prov2;
          key2 = prov2 @ arrow @ prov1
      in case map_of ROAD_DISTANCES key1 of
           Some d \<Rightarrow> Some d
         | None \<Rightarrow> map_of ROAD_DISTANCES key2)"

definition getRouteDistance :: "string \<Rightarrow> string \<Rightarrow> RouteDistanceResult" where
  "getRouteDistance orig dest =
     (let prov1 = extractProvince orig;
          prov2 = extractProvince dest
      in if prov1 = prov2 then \<lparr> distanceKm = 30, source = Lookup \<rparr>
         else
           case lookupDistance prov1 prov2 of
             Some known \<Rightarrow> \<lparr> distanceKm = known, source = Lookup \<rparr>
           | None \<Rightarrow>
               (case (map_of PROVINCE_COORDS prov1, map_of PROVINCE_COORDS prov2) of
                  (Some coord1, Some coord2) \<Rightarrow>
                    (let straight = haversineKm coord1 coord2;
                         roadEstimate = Math_round (straight * (13 / 10))
                     in \<lparr> distanceKm = roadEstimate, source = Haversine \<rparr>)
                | _ \<Rightarrow> \<lparr> distanceKm = 200, source = Haversine \<rparr>))"


section \<open>Market data analyzer\<close>

definition MIN_SAMPLE_SIZE :: nat where
  "MIN_SAMPLE_SIZE = 5"

definition sortedNumeric :: "real list \<Rightarrow> real list" where
  "sortedNumeric values = sort values"

text \<open>
  \<^verbatim>\<open>quantile\<close> is only called with \<open>q\<close> one of 0.25, 0.5 and 0.75, for which both indices
  are inside the array (lemma \<open>quantile_between\<close>).
\<close>

definition quantile :: "real list \<Rightarrow> real \<Rightarrow> real" where
  "quantile sorted' q =
     (if length sorted' = 0 then 0
      else if length sorted' = 1 then sorted' ! 0
      else
        (let pos = q * real (length sorted' - 1);
             lower = \<lfloor>pos\<rfloor>;
             upper = \<lceil>pos\<rceil>;
             fraction = pos - of_int lower
         in if lower = upper then sorted' ! nat lower
            else sorted' ! nat lower * (1 - fraction) + sorted' ! nat upper * fraction))"

definition medianOf :: "real list \<Rightarrow> real" where
  "medianOf sorted' = quantile sorted' (1 / 2)"

record IQRResult =
  filtered :: "real list"
  q1' :: real
  q3' :: real
  iqr' :: real
  lowerBound' :: real
  upperBound' :: real

definition applyIQRFilter :: "real list \<Rightarrow> real \<Rightarrow> IQRResult" where
  "applyIQRFilter values multiplier =
     (let sorted' = sortedNumeric values;
          q1 = quantile sorted' (1 / 4);
          q3 = quantile sorted' (3 / 4);
          iqr = q3 - q1;
          lowerBound = q1 - multiplier * iqr;
          upperBound = q3 + multiplier * iqr;
          filtered = filter (\<lambda>v. v \<ge> lowerBound \<and> v \<le> upperBound) sorted'
      in \<lparr> filtered = filtered, q1' = q1, q3' = q3, iqr' = iqr,
           lowerBound' = lowerBound, upperBound' = upperBound \<rparr>)"

text \<open>
  \<^verbatim>\<open>xs.reduce(f, 0)\<close> is \<open>foldl f 0 xs\<close>. \<open>computeConfidence\<close> is the formula over the
  reals; \<open>computeConfidence_double\<close> below is the same function on doubles.
\<close>

definition computeConfidence :: "real \<Rightarrow> real list \<Rightarrow> bool \<Rightarrow> real" where
  "computeConfidence sampleSz filteredValues fallback =
     (let sizeFactor = min (sampleSz / 30) 1;
          consistencyFactor =
            (if length filteredValues \<ge> 2 then
               (let mean = foldl (\<lambda>a b. a + b) 0 filteredValues / real (length filteredValues)
                in if mean > 0 then
                     (let variance =
                            foldl (\<lambda>sum v. sum + (v - mean)\<^sup>2) 0 filteredValues
                              / real (length filteredValues);
                          cv = sqrt variance / mean
                      in max 0 (1 - cv))
                   else 1)
             else 1);
          rawScore = sizeFactor * (6 / 10) + consistencyFactor * (4 / 10);
          fallbackPenalty = (if fallback then 7 / 10 else 1)
      in Math_round (rawScore * fallbackPenalty * 100) / 100)"

definition routeKey :: "string \<Rightarrow> string \<Rightarrow> string \<Rightarrow> string" where
  "routeKey orig dest vt = orig @ ''||'' @ dest @ ''||'' @ vt"

definition provinceRouteKey :: "string \<Rightarrow> string \<Rightarrow> string \<Rightarrow> string" where
  "provinceRouteKey orig dest vt =
     extractProvince orig @ ''||'' @ extractProvince dest @ ''||'' @ vt"

text \<open>The two keys of anything that has an origin, a destination and a vehicle type.\<close>

abbreviation routeKeyOf :: "'a Route_scheme \<Rightarrow> string" where
  "routeKeyOf x \<equiv> routeKey (origin x) (destination x) (vehicleType x)"

abbreviation provinceKeyOf :: "'a Route_scheme \<Rightarrow> string" where
  "provinceKeyOf x \<equiv> provinceRouteKey (origin x) (destination x) (vehicleType x)"

record RouteGroup = Route +
  prices :: "real list"

text \<open>
  A \<^verbatim>\<open>Map<RouteKey, group>\<close> is an association list in insertion order, which is the
  order a \<^verbatim>\<open>Map\<close> is iterated in. \<open>pushPrice key fresh p m\<close> is the body of both grouping
  passes: look the key up, insert the fresh group (whose price list is empty) if it is
  missing, and push the price onto the group's list.
\<close>

type_synonym GroupMap = "(string \<times> RouteGroup) list"

fun pushPrice :: "string \<Rightarrow> RouteGroup \<Rightarrow> real \<Rightarrow> GroupMap \<Rightarrow> GroupMap" where
  "pushPrice key fresh p [] = [(key, fresh\<lparr>prices := prices fresh @ [p]\<rparr>)]"
| "pushPrice key fresh p ((k, g) # m) =
     (if k = key then (k, g\<lparr>prices := prices g @ [p]\<rparr>) # m
      else (k, g) # pushPrice key fresh p m)"

definition routeGroups :: "PriceDataPoint list \<Rightarrow> GroupMap" where
  "routeGroups data =
     foldl (\<lambda>m d.
        let key = routeKey (origin d) (destination d) (vehicleType d)
        in pushPrice key
             \<lparr> origin = origin d, destination = destination d,
               vehicleType = vehicleType d, prices = [] \<rparr>
             (unitPrice d) m) [] data"

definition provinceGroups :: "PriceDataPoint list \<Rightarrow> GroupMap" where
  "provinceGroups data =
     foldl (\<lambda>m d.
        let provOrigin = extractProvince (origin d);
            provDest = extractProvince (destination d);
            key = provinceRouteKey (origin d) (destination d) (vehicleType d)
        in pushPrice key
             \<lparr> origin = provOrigin, destination = provDest,
               vehicleType = vehicleType d, prices = [] \<rparr>
             (unitPrice d) m) [] data"

text \<open>The three object literals pushed onto \<^verbatim>\<open>results\<close> in step 3, in source order.\<close>

definition exactResult :: "RouteGroup \<Rightarrow> RouteMedianResult" where
  "exactResult group' =
     (let iqrRes = applyIQRFilter (prices group') (3 / 2);
          med = medianOf (sortedNumeric (filtered iqrRes))
      in \<lparr> origin = origin group', destination = destination group',
           vehicleType = vehicleType group',
           median = Math_round med,
           sampleSize = length (prices group'),
           filteredSize = length (filtered iqrRes),
           q1 = Math_round (q1' iqrRes),
           q3 = Math_round (q3' iqrRes),
           iqr = Math_round (iqr' iqrRes),
           lowerBound = Math_round (lowerBound' iqrRes),
           upperBound = Math_round (upperBound' iqrRes),
           confidenceScore = computeConfidence (real (length (prices group'))) (filtered iqrRes) False,
           isFallback = False,
           fallbackLevel = None \<rparr>)"

definition rawFallbackResult :: "RouteGroup \<Rightarrow> real list \<Rightarrow> RouteMedianResult" where
  "rawFallbackResult group' ps =
     (let sorted' = sortedNumeric ps;
          med = medianOf sorted'
      in \<lparr> origin = origin group', destination = destination group',
           vehicleType = vehicleType group',
           median = Math_round med,
           sampleSize = length ps,
           filteredSize = length ps,
           q1 = Math_round (quantile sorted' (1 / 4)),
           q3 = Math_round (quantile sorted' (3 / 4)),
           iqr = 0,
           lowerBound = 0,
           upperBound = 0,
           confidenceScore = computeConfidence (real (length ps)) ps True,
           isFallback = True,
           fallbackLevel = Some Province \<rparr>)"

definition provinceFallbackResult :: "RouteGroup \<Rightarrow> RouteMedianResult" where
  "provinceFallbackResult provGroup =
     (let iqrRes = applyIQRFilter (prices provGroup) (3 / 2);
          med = medianOf (sortedNumeric (filtered iqrRes))
      in \<lparr> origin = origin provGroup, destination = destination provGroup,
           vehicleType = vehicleType provGroup,
           median = Math_round med,
           sampleSize = length (prices provGroup),
           filteredSize = length (filtered iqrRes),
           q1 = Math_round (q1' iqrRes),
           q3 = Math_round (q3' iqrRes),
           iqr = Math_round (iqr' iqrRes),
           lowerBound = Math_round (lowerBound' iqrRes),
           upperBound = Math_round (upperBound' iqrRes),
           confidenceScore =
             computeConfidence (real (length (prices provGroup))) (filtered iqrRes) True,
           isFallback = True,
           fallbackLevel = Some Province \<rparr>)"

text \<open>
  The fallback branch once the province key is known to be new: the province group is
  looked up; a missing or small one gives the raw result over
  \<^verbatim>\<open>provGroup?.prices ?? group.prices\<close>, a large one the filtered province result.
\<close>

definition fallbackResult :: "GroupMap \<Rightarrow> RouteGroup \<Rightarrow> string \<Rightarrow> RouteMedianResult" where
  "fallbackResult provGroups group' provKey =
     (case map_of provGroups provKey of
        None \<Rightarrow> rawFallbackResult group' (prices group')
      | Some provGroup \<Rightarrow>
          if length (prices provGroup) < MIN_SAMPLE_SIZE
          then rawFallbackResult group' (prices provGroup)
          else provinceFallbackResult provGroup)"

text \<open>
  Step 3, the loop over \<^verbatim>\<open>routeGroups\<close>, with its two mutable variables \<^verbatim>\<open>results\<close> and
  \<^verbatim>\<open>processedProvinceKeys\<close> as accumulators.
\<close>

fun computeResults ::
  "GroupMap \<Rightarrow> GroupMap \<Rightarrow> RouteMedianResult list \<Rightarrow> string set \<Rightarrow> RouteMedianResult list" where
  "computeResults provGroups [] results processed = results"
| "computeResults provGroups ((key, group') # rest) results processed =
     (if length (prices group') \<ge> MIN_SAMPLE_SIZE
      then computeResults provGroups rest (results @ [exactResult group']) processed
      else
        (let provKey = provinceRouteKey (origin group') (destination group') (vehicleType group')
         in if provKey \<in> processed
            then computeResults provGroups rest results processed
            else computeResults provGroups rest
                   (results @ [fallbackResult provGroups group' provKey])
                   (insert provKey processed)))"

text \<open>
  \<^verbatim>\<open>results.sort((a, b) => b.confidenceScore - a.confidenceScore)\<close>: a stable sort by
  descending confidence.
\<close>

definition analyzeMarketData :: "PriceDataPoint list \<Rightarrow> RouteMedianResult list" where
  "analyzeMarketData data =
     (let routeGroups = routeGroups data;
          provinceGroups = provinceGroups data;
          results = computeResults provinceGroups routeGroups [] {}
      in sort_key (\<lambda>r. - confidenceScore r) results)"


section \<open>Pricing engine\<close>

definition COST_DEFAULTS :: CostVariables where
  "COST_DEFAULTS = \<lparr>
     fuel_price = 1650,
     fuel_efficiency = 35 / 10,
     toll_rate = 120,
     vehicle_fixed_cost = 150000,
     driver_profit_rate = 15 / 100,
     company_margin_rate = 8 / 100,
     freight_risk_fragile = 12 / 100,
     freight_risk_refrigerated = 15 / 100,
     freight_risk_hazardous = 20 / 100 \<rparr>"

text \<open>
  \<^verbatim>\<open>fetchCostVariables\<close>: the rows of the CostMaster table are put into a \<^verbatim>\<open>Map\<close> (a
  later row with the same item replaces an earlier one); every variable missing there
  takes its default.
\<close>

definition fetchCostVariables :: "(string \<times> real) list \<Rightarrow> CostVariables" where
  "fetchCostVariables rows =
     (let m = map_of (rev rows);
          get = (\<lambda>k d. case m k of Some v \<Rightarrow> v | None \<Rightarrow> d)
      in \<lparr>
        fuel_price = get ''fuel_price'' (fuel_price COST_DEFAULTS),
        fuel_efficiency = get ''fuel_efficiency'' (fuel_efficiency COST_DEFAULTS),
        toll_rate = get ''toll_rate'' (toll_rate COST_DEFAULTS),
        vehicle_fixed_cost = get ''vehicle_fixed_cost'' (vehicle_fixed_cost COST_DEFAULTS),
        driver_profit_rate = get ''driver_profit_rate'' (driver_profit_rate COST_DEFAULTS),
        company_margin_rate = get ''company_margin_rate'' (company_margin_rate COST_DEFAULTS),
        freight_risk_fragile = get ''freight_risk_fragile'' (freight_risk_fragile COST_DEFAULTS),
        freight_risk_refrigerated =
          get ''freight_risk_refrigerated'' (freight_risk_refrigerated COST_DEFAULTS),
        freight_risk_hazardous =
          get ''freight_risk_hazardous'' (freight_risk_hazardous COST_DEFAULTS) \<rparr>)"

definition VEHICLE_EFFICIENCY :: "(string \<times> real) list" where
  "VEHICLE_EFFICIENCY =
     [(''1t'', 8), (''2.5t'', 65 / 10), (''3.5t'', 55 / 10), (''5t'', 45 / 10), (''8t'', 4),
      (''11t'', 35 / 10), (''15t'', 3), (''18t'', 28 / 10), (''25t'', 25 / 10)]"

definition getEfficiency :: "string \<Rightarrow> real \<Rightarrow> real" where
  "getEfficiency vt defaultEff =
     (case map_of VEHICLE_EFFICIENCY vt of Some e \<Rightarrow> e | None \<Rightarrow> defaultEff)"

definition calculateTier1 :: "RouteDistanceResult \<Rightarrow> string \<Rightarrow> CostVariables \<Rightarrow> Tier1Breakdown" where
  "calculateTier1 distance vt costs =
     (let km = distanceKm distance;
          efficiency = getEfficiency vt (fuel_efficiency costs);
          fuelCost = Math_round ((km / efficiency) * fuel_price costs);
          tollCost = Math_round (km * toll_rate costs);
          fixedCost = vehicle_fixed_cost costs;
          operatingCost = fuelCost + tollCost + fixedCost;
          driverProfit = Math_round (operatingCost * driver_profit_rate costs);
          subtotal = operatingCost + driverProfit
      in \<lparr> fuelCost = fuelCost, tollCost = tollCost, fixedCost = fixedCost,
           driverProfit = driverProfit, subtotal = subtotal, distanceKm' = km,
           distanceSource = source distance \<rparr>)"

text \<open>
  \<^verbatim>\<open>findMarketMedian\<close>: the rows of the MarketData table with the requested vehicle type
  (the \<^verbatim>\<open>where\<close> clause of the query) are analysed, and the result for the exact route or,
  failing that, the province-level fallback result is returned; \<open>None\<close> is \<^verbatim>\<open>null\<close>.
  \<^verbatim>\<open>origin.split("/")[0].trim()\<close> is \<open>extractProvince\<close>.
\<close>

definition findMarketMedian ::
  "PriceDataPoint list \<Rightarrow> string \<Rightarrow> string \<Rightarrow> string \<Rightarrow> RouteMedianResult option" where
  "findMarketMedian table orig dest vt =
     (let allData = filter (\<lambda>d. vehicleType d = vt) table
      in if length allData = 0 then None
         else
           (let dataPoints =
                  map (\<lambda>d. \<lparr> origin = origin d, destination = destination d,
                              vehicleType = vehicleType d, unitPrice = unitPrice d \<rparr>) allData;
                results = analyzeMarketData dataPoints
            in case find (\<lambda>r. origin r = orig \<and> destination r = dest) results of
                 Some exactMatch \<Rightarrow> Some exactMatch
               | None \<Rightarrow>
                   (let originProv = extractProvince orig;
                        destProv = extractProvince dest
                    in find (\<lambda>r. isFallback r \<and> origin r = originProv \<and> destination r = destProv)
                         results)))"

text \<open>\<^verbatim>\<open>calculateTier2\<close>: \<open>None\<close> is the \<^verbatim>\<open>null\<close> market result.\<close>

definition calculateTier2 :: "real \<Rightarrow> RouteMedianResult option \<Rightarrow> Tier2Breakdown" where
  "calculateTier2 tier1Base marketResult =
     (case marketResult of
        None \<Rightarrow>
          \<lparr> marketMedian = None, adjustmentFactor = 1, adjustedPrice = tier1Base,
            sampleSize' = 0, confidenceScore' = 0, isFallback' = False,
            hasMarketData = False \<rparr>
      | Some r \<Rightarrow>
          (let marketMedian = median r;
               confidence = confidenceScore r;
               adjustedPrice =
                 Math_round (tier1Base * (1 - confidence) + marketMedian * confidence);
               adjustmentFactor =
                 (if tier1Base > 0 then Math_round ((adjustedPrice / tier1Base) * 1000) / 1000
                  else 1)
           in \<lparr> marketMedian = Some marketMedian, adjustmentFactor = adjustmentFactor,
                adjustedPrice = adjustedPrice, sampleSize' = sampleSize r,
                confidenceScore' = confidence, isFallback' = isFallback r,
                hasMarketData = True \<rparr>))"

definition fragileKeywords :: "string list" where
  "fragileKeywords = [''fragile'', ''paper'', ''glass'', ''ceramic'', ''electronics'']"

definition refrigeratedKeywords :: "string list" where
  "refrigeratedKeywords = [''refrigerated'', ''frozen'', ''chilled'', ''cold'']"

definition hazardousKeywords :: "string list" where
  "hazardousKeywords = [''hazardous'', ''chemical'', ''flammable'', ''explosive'']"

text \<open>
  \<^verbatim>\<open>getFreightRiskRate\<close>: \<open>None\<close> is an absent \<^verbatim>\<open>freightType\<close>; the empty string is falsy
  too. \<^verbatim>\<open>keywords.some(k => normalized.includes(k))\<close> is \<open>list_ex\<close>.
\<close>

definition getFreightRiskRate :: "string option \<Rightarrow> CostVariables \<Rightarrow> real" where
  "getFreightRiskRate ft costs =
     (case ft of
        None \<Rightarrow> 0
      | Some s \<Rightarrow>
          if s = [] then 0
          else
            (let normalized = toLowerCase s in
             if list_ex (\<lambda>k. str_includes normalized k) fragileKeywords
               then freight_risk_fragile costs
             else if list_ex (\<lambda>k. str_includes normalized k) refrigeratedKeywords
               then freight_risk_refrigerated costs
             else if list_ex (\<lambda>k. str_includes normalized k) hazardousKeywords
               then freight_risk_hazardous costs
             else 0))"

text \<open>
  \<^verbatim>\<open>ceilTo1000\<close> and \<^verbatim>\<open>calculateTier3\<close> over the reals; \<open>ceilTo1000_double\<close> and
  \<open>calculateTier3_double\<close> below are the same functions on doubles.
\<close>

definition ceilTo1000 :: "real \<Rightarrow> real" where
  "ceilTo1000 v = Math_ceil (v / 1000) * 1000"

definition calculateTier3 :: "real \<Rightarrow> string option \<Rightarrow> real \<Rightarrow> CostVariables \<Rightarrow> Tier3Breakdown" where
  "calculateTier3 tier2Price ft manualRate costs =
     (let companyMarginRate = company_margin_rate costs;
          companyMargin = Math_round (tier2Price * companyMarginRate);
          freightRiskRate = getFreightRiskRate ft costs;
          freightRiskSurcharge = Math_round (tier2Price * freightRiskRate);
          manualAdjustment = Math_round (tier2Price * manualRate);
          subtotalBeforeRounding =
            tier2Price + companyMargin + freightRiskSurcharge + manualAdjustment;
          finalPrice = ceilTo1000 subtotalBeforeRounding
      in \<lparr> companyMarginRate = companyMarginRate, companyMargin = companyMargin,
           freightRiskRate = freightRiskRate, freightRiskSurcharge = freightRiskSurcharge,
           manualAdjustmentRate' = manualRate, manualAdjustment = manualAdjustment,
           subtotalBeforeRounding = subtotalBeforeRounding, finalPrice = finalPrice \<rparr>)"

definition computeOverallConfidence :: "DistanceSource \<Rightarrow> Tier2Breakdown \<Rightarrow> real" where
  "computeOverallConfidence distSource tier2 =
     (let distConf = (if distSource = Lookup then 1 else 6 / 10);
          marketConf = (if hasMarketData tier2 then confidenceScore' tier2 else 3 / 10);
          overall = distConf * (3 / 10) + marketConf * (7 / 10)
      in Math_round (overall * 100) / 100)"

record Summary =
  tier1_base :: real
  tier2_adjusted :: real
  tier3_final :: real
  overallConfidence :: real
  dataSources :: "string list"

record FPHResult =
  request :: FPHInput
  tier1 :: Tier1Breakdown
  tier2 :: Tier2Breakdown
  tier3 :: Tier3Breakdown
  summary :: Summary

text \<open>
  The external store, as far as the engine reads it: the rows (item, value) of the
  CostMaster table and the rows of the MarketData table.
\<close>

record Store =
  costMaster :: "(string \<times> real) list"
  marketData :: "PriceDataPoint list"

text \<open>
  \<^verbatim>\<open>calculateFPHPrice\<close> for a well-formed request, over a store that answers. (The field
  \<^verbatim>\<open>input\<close> of the result is called \<open>request\<close> here.)
\<close>

definition calculateFPHPrice :: "Store \<Rightarrow> FPHInput \<Rightarrow> FPHResult" where
  "calculateFPHPrice store inp =
     (let manualRate = (case manualAdjustmentRate inp of None \<Rightarrow> 0 | Some m \<Rightarrow> m);
          costs = fetchCostVariables (costMaster store);
          distance = getRouteDistance (origin inp) (destination inp);
          t1 = calculateTier1 distance (vehicleType inp) costs;
          marketResult =
            findMarketMedian (marketData store) (origin inp) (destination inp) (vehicleType inp);
          t2 = calculateTier2 (subtotal t1) marketResult;
          t3 = calculateTier3 (adjustedPrice t2) (freightType inp) manualRate costs;
          sources =
            [''CostMaster'']
            @ (if hasMarketData t2 then [''MarketData (IQR)''] else [])
            @ (if source distance = Lookup then [''RouteDistance (lookup)'']
               else [''RouteDistance (haversine estimate)'']);
          overall = computeOverallConfidence (source distance) t2
      in \<lparr> request = inp, tier1 = t1, tier2 = t2, tier3 = t3,
           summary = \<lparr> tier1_base = subtotal t1, tier2_adjusted = adjustedPrice t2,
                       tier3_final = finalPrice t3, overallConfidence = overall,
                       dataSources = sources \<rparr> \<rparr>)"


section \<open>Double-precision arithmetic\<close>

text \<open>
  The functions above are stated over exact reals. Where the magnitude of the numbers
  decides what the program returns, the same functions are stated here over the values of
  an IEEE 754 binary64 number, the \<^verbatim>\<open>number\<close> of the source language: a finite value, one of
  the two infinities, or NaN. The sign of zero is not tracked: a zero divisor is taken to
  be \<^verbatim>\<open>+0\<close>, and \<^verbatim>\<open>-0\<close> and \<^verbatim>\<open>0\<close> are equal under every comparison.

  \<open>roundToDouble\<close> is rounding to nearest, ties to even: a real \<open>x\<close> with binary exponent
  \<open>e\<close> (at least \<open>-1022\<close>, the exponent of the subnormal numbers) is rounded to a multiple
  of \<open>2 ^ (e - 52)\<close>, and a result of magnitude \<open>2 ^ 1024\<close> or more is an infinity.
\<close>

datatype double = Finite real | PlusInfinity | MinusInfinity | NaN

definition roundHalfEven :: "real \<Rightarrow> int" where
  "roundHalfEven x =
     (let f = \<lfloor>x\<rfloor>; r = x - of_int f
      in if r < 1 / 2 then f else if r > 1 / 2 then f + 1 else if even f then f else f + 1)"

definition overflowBound :: real where
  "overflowBound = 2 ^ 1024"

definition roundToDouble :: "real \<Rightarrow> double" where
  "roundToDouble x =
     (if x = 0 then Finite 0
      else
        (let e = max \<lfloor>log 2 \<bar>x\<bar>\<rfloor> (- 1022);
             ulp = 2 powr of_int (e - 52);
             y = of_int (roundHalfEven (x / ulp)) * ulp
         in if \<bar>y\<bar> \<ge> overflowBound then (if x > 0 then PlusInfinity else MinusInfinity)
            else Finite y))"

definition signOf :: "double \<Rightarrow> real" where
  "signOf x =
     (case x of Finite a \<Rightarrow> sgn a | PlusInfinity \<Rightarrow> 1 | MinusInfinity \<Rightarrow> - 1 | NaN \<Rightarrow> 0)"

text \<open>
  The operators \<^verbatim>\<open>+\<close>, unary \<^verbatim>\<open>-\<close>, binary \<^verbatim>\<open>-\<close>, \<^verbatim>\<open>*\<close>, \<^verbatim>\<open>/\<close>, \<^verbatim>\<open>%\<close> and \<^verbatim>\<open><\<close>, \<^verbatim>\<open>>\<close> on numbers: the
  exact result rounded, NaN absorbing, and the usual rules for the infinities. The
  equations of each function are read in order.
\<close>

fun js_add :: "double \<Rightarrow> double \<Rightarrow> double" where
  "js_add (Finite a) (Finite b) = roundToDouble (a + b)"
| "js_add NaN y = NaN"
| "js_add x NaN = NaN"
| "js_add PlusInfinity MinusInfinity = NaN"
| "js_add MinusInfinity PlusInfinity = NaN"
| "js_add PlusInfinity y = PlusInfinity"
| "js_add MinusInfinity y = MinusInfinity"
| "js_add (Finite a) y = y"

fun js_neg :: "double \<Rightarrow> double" where
  "js_neg (Finite a) = Finite (- a)"
| "js_neg PlusInfinity = MinusInfinity"
| "js_neg MinusInfinity = PlusInfinity"
| "js_neg NaN = NaN"

definition js_sub :: "double \<Rightarrow> double \<Rightarrow> double" where
  "js_sub x y = js_add x (js_neg y)"

fun js_mul :: "double \<Rightarrow> double \<Rightarrow> double" where
  "js_mul (Finite a) (Finite b) = roundToDouble (a * b)"
| "js_mul x y =
     (if x = NaN \<or> y = NaN \<or> signOf x * signOf y = 0 then NaN
      else if signOf x * signOf y > 0 then PlusInfinity else MinusInfinity)"

fun js_div :: "double \<Rightarrow> double \<Rightarrow> double" where
  "js_div (Finite a) (Finite b) =
     (if b = 0 then (if a = 0 then NaN else if a > 0 then PlusInfinity else MinusInfinity)
      else roundToDouble (a / b))"
| "js_div NaN y = NaN"
| "js_div x NaN = NaN"
| "js_div (Finite a) y = Finite 0"
| "js_div x (Finite b) =
     (if signOf x * (if b < 0 then - 1 else 1) > 0 then PlusInfinity else MinusInfinity)"
| "js_div x y = NaN"

text \<open>\<^verbatim>\<open>a % b\<close> has the sign of \<open>a\<close> and is exact.\<close>

fun js_rem :: "double \<Rightarrow> double \<Rightarrow> double" where
  "js_rem (Finite a) (Finite b) =
     (if b = 0 then NaN else Finite (a - b * (sgn (a / b) * of_int \<lfloor>\<bar>a / b\<bar>\<rfloor>)))"
| "js_rem (Finite a) PlusInfinity = Finite a"
| "js_rem (Finite a) MinusInfinity = Finite a"
| "js_rem x y = NaN"

fun js_lt :: "double \<Rightarrow> double \<Rightarrow> bool" where
  "js_lt (Finite a) (Finite b) \<longleftrightarrow> a < b"
| "js_lt NaN y \<longleftrightarrow> False"
| "js_lt x NaN \<longleftrightarrow> False"
| "js_lt PlusInfinity y \<longleftrightarrow> False"
| "js_lt x MinusInfinity \<longleftrightarrow> False"
| "js_lt x y \<longleftrightarrow> True"

definition js_gt :: "double \<Rightarrow> double \<Rightarrow> bool" where
  "js_gt x y \<longleftrightarrow> js_lt y x"

text \<open>
  \<^verbatim>\<open>Math.max\<close> and \<^verbatim>\<open>Math.min\<close> return NaN when an argument is NaN. \<^verbatim>\<open>Math.sqrt\<close> is
  correctly rounded. \<^verbatim>\<open>Math.round\<close> and \<^verbatim>\<open>Math.ceil\<close> of a finite double are integers that
  are doubles again, so they are the functions on reals; they leave NaN and the
  infinities as they are.
\<close>

definition Math_max_double :: "double \<Rightarrow> double \<Rightarrow> double" where
  "Math_max_double x y = (if x = NaN \<or> y = NaN then NaN else if js_lt x y then y else x)"

definition Math_min_double :: "double \<Rightarrow> double \<Rightarrow> double" where
  "Math_min_double x y = (if x = NaN \<or> y = NaN then NaN else if js_lt y x then y else x)"

fun Math_sqrt_double :: "double \<Rightarrow> double" where
  "Math_sqrt_double (Finite a) = (if a < 0 then NaN else roundToDouble (sqrt a))"
| "Math_sqrt_double PlusInfinity = PlusInfinity"
| "Math_sqrt_double x = NaN"

fun Math_round_double :: "double \<Rightarrow> double" where
  "Math_round_double (Finite a) = Finite (Math_round a)"
| "Math_round_double x = x"

fun Math_ceil_double :: "double \<Rightarrow> double" where
  "Math_ceil_double (Finite a) = Finite (Math_ceil a)"
| "Math_ceil_double x = x"

text \<open>
  \<^verbatim>\<open>computeConfidence\<close> in double precision. A decimal literal is the double nearest to
  it; \<^verbatim>\<open>(v - mean) ** 2\<close> is the rounded square; the length of an array is a finite double.
\<close>

definition computeConfidence_double :: "double \<Rightarrow> double list \<Rightarrow> bool \<Rightarrow> double" where
  "computeConfidence_double sampleSz filteredValues fallback =
     (let sizeFactor = Math_min_double (js_div sampleSz (Finite 30)) (Finite 1);
          consistencyFactor =
            (if length filteredValues \<ge> 2 then
               (let mean = js_div (foldl (\<lambda>a b. js_add a b) (Finite 0) filteredValues)
                             (Finite (real (length filteredValues)))
                in if js_gt mean (Finite 0) then
                     (let variance =
                            js_div
                              (foldl (\<lambda>sum v. js_add sum (js_mul (js_sub v mean) (js_sub v mean)))
                                 (Finite 0) filteredValues)
                              (Finite (real (length filteredValues)));
                          cv = js_div (Math_sqrt_double variance) mean
                      in Math_max_double (Finite 0) (js_sub (Finite 1) cv))
                   else Finite 1)
             else Finite 1);
          rawScore = js_add (js_mul sizeFactor (roundToDouble (6 / 10)))
                            (js_mul consistencyFactor (roundToDouble (4 / 10)));
          fallbackPenalty = (if fallback then roundToDouble (7 / 10) else Finite 1)
      in js_div (Math_round_double (js_mul (js_mul rawScore fallbackPenalty) (Finite 100)))
           (Finite 100))"

text \<open>
  \<^verbatim>\<open>ceilTo1000\<close> and \<^verbatim>\<open>calculateTier3\<close> in double precision. The cost variables are the
  doubles nearest to the decimal values of the cost record.
\<close>

definition ceilTo1000_double :: "double \<Rightarrow> double" where
  "ceilTo1000_double v = js_mul (Math_ceil_double (js_div v (Finite 1000))) (Finite 1000)"

record Tier3Breakdown_double =
  companyMarginRate_d :: double
  companyMargin_d :: double
  freightRiskRate_d :: double
  freightRiskSurcharge_d :: double
  manualAdjustmentRate_d :: double
  manualAdjustment_d :: double
  subtotalBeforeRounding_d :: double
  finalPrice_d :: double

definition calculateTier3_double ::
  "double \<Rightarrow> string option \<Rightarrow> double \<Rightarrow> CostVariables \<Rightarrow> Tier3Breakdown_double" where
  "calculateTier3_double tier2Price ft manualRate costs =
     (let companyMarginRate = roundToDouble (company_margin_rate costs);
          companyMargin = Math_round_double (js_mul tier2Price companyMarginRate);
          freightRiskRate = roundToDouble (getFreightRiskRate ft costs);
          freightRiskSurcharge = Math_round_double (js_mul tier2Price freightRiskRate);
          manualAdjustment = Math_round_double (js_mul tier2Price manualRate);
          subtotalBeforeRounding =
            js_add (js_add (js_add tier2Price companyMargin) freightRiskSurcharge)
              manualAdjustment;
          finalPrice = ceilTo1000_double subtotalBeforeRounding
      in \<lparr> companyMarginRate_d = companyMarginRate, companyMargin_d = companyMargin,
           freightRiskRate_d = freightRiskRate, freightRiskSurcharge_d = freightRiskSurcharge,
           manualAdjustmentRate_d = manualRate, manualAdjustment_d = manualAdjustment,
           subtotalBeforeRounding_d = subtotalBeforeRounding, finalPrice_d = finalPrice \<rparr>)"


section \<open>Batch runner\<close>

text \<open>
  \<^verbatim>\<open>runBatchSimulation\<close> takes \<^verbatim>\<open>any[]\<close>. An element of the array is either \<^verbatim>\<open>null\<close> or
  \<^verbatim>\<open>undefined\<close> (\<open>Nullish\<close>), on which every property read throws a \<^verbatim>\<open>TypeError\<close>, or a
  value whose properties can be read (\<open>Obj\<close>): an object whose \<^verbatim>\<open>origin\<close> and
  \<^verbatim>\<open>destination\<close> may be missing (the error label reads them with \<^verbatim>\<open>?? "?"\<close>), its other
  fields being the extension part of the record; a primitive value is such an object
  without fields.
\<close>

datatype 'a element = Nullish | Obj 'a

datatype rejection = TypeError

record BatchRequest =
  reqOrigin :: "string option"
  reqDestination :: "string option"

record BatchError =
  index :: nat
  route :: string
  message :: string

definition routeLabel :: "'a BatchRequest_scheme \<Rightarrow> string" where
  "routeLabel inp =
     (case reqOrigin inp of None \<Rightarrow> ''?'' | Some s \<Rightarrow> s) @ '' '' @ arrow @ '' ''
     @ (case reqDestination inp of None \<Rightarrow> ''?'' | Some s \<Rightarrow> s)"

text \<open>
  The template literal of the \<^verbatim>\<open>catch\<close> block, evaluated on the array element itself:
  \<^verbatim>\<open>input.origin\<close> throws when \<^verbatim>\<open>input\<close> is \<^verbatim>\<open>null\<close> or \<^verbatim>\<open>undefined\<close>.
\<close>

definition readRouteLabel :: "'a BatchRequest_scheme element \<Rightarrow> rejection + string" where
  "readRouteLabel el = (case el of Nullish \<Rightarrow> Inl TypeError | Obj inp \<Rightarrow> Inr (routeLabel inp))"

text \<open>\<^verbatim>\<open>error.message || "Calculation failed"\<close>: the empty message is falsy.\<close>

definition errorMessage :: "string \<Rightarrow> string" where
  "errorMessage msg = (if msg = [] then ''Calculation failed'' else msg)"

text \<open>
  The awaited call \<^verbatim>\<open>calculateFPHPrice(input)\<close>. Its first statement destructures
  \<^verbatim>\<open>input\<close>, which throws a \<^verbatim>\<open>TypeError\<close> on \<^verbatim>\<open>null\<close> and \<^verbatim>\<open>undefined\<close> (the message text is
  the engine's). On any other element the call reads the external store and either
  resolves to a result or throws; its outcome at the \<open>i\<close>-th iteration is the parameter
  \<open>calc i input\<close>, with \<open>Inl\<close> carrying the \<^verbatim>\<open>message\<close> of the thrown error.
\<close>

definition nullishMessage :: string where
  "nullishMessage = ''Cannot destructure property origin of input as it is null or undefined.''"

definition tryCalculate ::
  "(nat \<Rightarrow> 'a BatchRequest_scheme \<Rightarrow> string + 'r) \<Rightarrow> nat \<Rightarrow> 'a BatchRequest_scheme element \<Rightarrow>
     string + 'r" where
  "tryCalculate calc i el = (case el of Nullish \<Rightarrow> Inl nullishMessage | Obj inp \<Rightarrow> calc i inp)"

text \<open>
  The loop of \<^verbatim>\<open>runBatchSimulation\<close>. An error thrown by the call is caught; an error
  thrown inside the \<^verbatim>\<open>catch\<close> block, while the error entry is being built, is caught by
  nothing: the loop ends there and the promise of \<^verbatim>\<open>runBatchSimulation\<close> rejects (\<open>Inl\<close>).
  \<open>Inr\<close> is the returned pair \<^verbatim>\<open>{ results, errors }\<close>.
\<close>

function batchLoop ::
  "(nat \<Rightarrow> 'a BatchRequest_scheme \<Rightarrow> string + 'r) \<Rightarrow> 'a BatchRequest_scheme element list \<Rightarrow> nat \<Rightarrow>
     'r list \<Rightarrow> BatchError list \<Rightarrow> rejection + ('r list \<times> BatchError list)" where
  "batchLoop calc inputs i results errors =
     (if i < length inputs then
        (let inp = inputs ! i
         in case tryCalculate calc i inp of
              Inr result \<Rightarrow> batchLoop calc inputs (i + 1) (results @ [result]) errors
            | Inl msg \<Rightarrow>
                (case readRouteLabel inp of
                   Inl err \<Rightarrow> Inl err
                 | Inr label \<Rightarrow>
                     batchLoop calc inputs (i + 1) results
                       (errors @ [\<lparr> index = i, route = label,
                                    message = errorMessage msg \<rparr>])))
      else Inr (results, errors))"
  by pat_completeness auto
termination
  by (relation "measure (\<lambda>(calc, inputs, i, results, errors). length inputs - i)") auto

declare batchLoop.simps [simp del]

definition runBatchSimulation ::
  "(nat \<Rightarrow> 'a BatchRequest_scheme \<Rightarrow> string + 'r) \<Rightarrow> 'a BatchRequest_scheme element list \<Rightarrow>
     rejection + ('r list \<times> BatchError list)" where
  "runBatchSimulation calc inputs = batchLoop calc inputs 0 [] []"


section \<open>Vocabulary of the specification\<close>

text \<open>
  The definitions of this section are not code of the program: they say what the
  specification's words mean, and the theorems below compare the program with them.
\<close>

subsection \<open>Observations, keys and pools\<close>

text \<open>
  The exact key of an observation is its \<open>routeKey\<close>, its province-aggregated key its
  \<open>provinceRouteKey\<close>. \<open>samples data k\<close> are the observations of the exact key \<open>k\<close>, in
  input order; \<open>provinceKeyOfExact data k\<close> is the province-aggregated key of the exact
  key \<open>k\<close>, taken from its first observation; \<open>provincePool data P\<close> are the prices of
  all observations of the province key \<open>P\<close>.
\<close>

definition samples :: "PriceDataPoint list \<Rightarrow> string \<Rightarrow> PriceDataPoint list" where
  "samples data k = filter (\<lambda>d. routeKeyOf d = k) data"

definition exactKeys :: "PriceDataPoint list \<Rightarrow> string set" where
  "exactKeys data = (\<lambda>d. routeKeyOf d) ` set data"

definition provinceKeyOfExact :: "PriceDataPoint list \<Rightarrow> string \<Rightarrow> string" where
  "provinceKeyOfExact data k = provinceKeyOf (hd (samples data k))"

definition provincePool :: "PriceDataPoint list \<Rightarrow> string \<Rightarrow> real list" where
  "provincePool data P = map unitPrice (filter (\<lambda>d. provinceKeyOf d = P) data)"

text \<open>The result list before the final sort.\<close>

definition unsortedResults :: "PriceDataPoint list \<Rightarrow> RouteMedianResult list" where
  "unsortedResults data = computeResults (provinceGroups data) (routeGroups data) [] {}"

text \<open>
  The statistics of a result come from the IQR filter applied to \<open>pool\<close>
  (\<open>filteredStats\<close>), or from \<open>pool\<close> itself with no filtering (\<open>rawStats\<close>).
\<close>

definition filteredStats :: "real list \<Rightarrow> RouteMedianResult \<Rightarrow> bool" where
  "filteredStats pool r \<longleftrightarrow>
     (let f = applyIQRFilter pool (3 / 2) in
        sampleSize r = length pool \<and>
        filteredSize r = length (filtered f) \<and>
        median r = Math_round (medianOf (sortedNumeric (filtered f))) \<and>
        q1 r = Math_round (q1' f) \<and> q3 r = Math_round (q3' f) \<and>
        iqr r = Math_round (iqr' f) \<and>
        lowerBound r = Math_round (lowerBound' f) \<and>
        upperBound r = Math_round (upperBound' f))"

definition rawStats :: "real list \<Rightarrow> RouteMedianResult \<Rightarrow> bool" where
  "rawStats pool r \<longleftrightarrow>
     sampleSize r = length pool \<and>
     filteredSize r = length pool \<and>
     median r = Math_round (medianOf (sortedNumeric pool)) \<and>
     q1 r = Math_round (quantile (sortedNumeric pool) (1 / 4)) \<and>
     q3 r = Math_round (quantile (sortedNumeric pool) (3 / 4)) \<and>
     iqr r = 0 \<and> lowerBound r = 0 \<and> upperBound r = 0"


subsection \<open>Confidence score\<close>

definition meanOf :: "real list \<Rightarrow> real" where
  "meanOf vs = sum_list vs / real (length vs)"

definition populationStdDev :: "real list \<Rightarrow> real" where
  "populationStdDev vs = sqrt ((\<Sum>v\<leftarrow>vs. (v - meanOf vs)\<^sup>2) / real (length vs))"

definition sizeFactor :: "real \<Rightarrow> real" where
  "sizeFactor n = min (n / 30) 1"

definition consistencyFactor :: "real list \<Rightarrow> real" where
  "consistencyFactor vs =
     (if length vs < 2 \<or> meanOf vs \<le> 0 then 1
      else max 0 (1 - populationStdDev vs / meanOf vs))"

definition roundTo2 :: "real \<Rightarrow> real" where
  "roundTo2 x = Math_round (x * 100) / 100"

definition fallbackPenalty :: "bool \<Rightarrow> real" where
  "fallbackPenalty fb = (if fb then 7 / 10 else 1)"


text \<open>The formula with the penalty inside the rounding.\<close>

definition confidence_amended :: "real \<Rightarrow> real list \<Rightarrow> bool \<Rightarrow> real" where
  "confidence_amended n vs fb =
     roundTo2 ((sizeFactor n * (6 / 10) + consistencyFactor vs * (4 / 10)) * fallbackPenalty fb)"

subsection \<open>Reaching the default branch of the quantile function\<close>










subsection \<open>Freight keywords\<close>

text \<open>
  \<open>matchesIgnoringCase s k\<close>: some contiguous part of \<open>s\<close> is the (lower-case) keyword \<open>k\<close>
  up to the case of its letters.
\<close>

definition matchesIgnoringCase :: "string \<Rightarrow> string \<Rightarrow> bool" where
  "matchesIgnoringCase s k \<longleftrightarrow> (\<exists>pre mid suf. s = pre @ mid @ suf \<and> toLowerCase mid = k)"

definition matchesAny :: "string \<Rightarrow> string list \<Rightarrow> bool" where
  "matchesAny s ks \<longleftrightarrow> (\<exists>k \<in> set ks. matchesIgnoringCase s k)"

subsection \<open>Batch outcome\<close>

text \<open>
  The results and the error entries a batch should give: request \<open>i\<close> contributes its
  result if its pricing run succeeds and its error entry if it fails.
\<close>

definition successesOf ::
  "(nat \<Rightarrow> 'a BatchRequest_scheme \<Rightarrow> string + 'r) \<Rightarrow> 'a BatchRequest_scheme list \<Rightarrow> 'r list" where
  "successesOf calc inputs =
     concat (map (\<lambda>i. case calc i (inputs ! i) of Inr r \<Rightarrow> [r] | Inl msg \<Rightarrow> [])
       [0 ..< length inputs])"

definition failuresOf ::
  "(nat \<Rightarrow> 'a BatchRequest_scheme \<Rightarrow> string + 'r) \<Rightarrow> 'a BatchRequest_scheme list \<Rightarrow> BatchError list" where
  "failuresOf calc inputs =
     concat (map (\<lambda>i. case calc i (inputs ! i) of
                        Inr r \<Rightarrow> []
                      | Inl msg \<Rightarrow> [\<lparr> index = i, route = routeLabel (inputs ! i),
                                      message = errorMessage msg \<rparr>])
       [0 ..< length inputs])"

subsection \<open>Corridor table\<close>

text \<open>The province pairs of the keys of \<open>ROAD_DISTANCES\<close>.\<close>

definition corridorPairs :: "(string \<times> string) list" where
  "corridorPairs =
     [(''Busan'', ''Seoul''), (''Daegu'', ''Seoul''), (''Daejeon'', ''Seoul''),
      (''Gwangju'', ''Seoul''), (''Incheon'', ''Seoul''), (''Gyeonggi'', ''Seoul''),
      (''Gangwon'', ''Seoul''), (''Chungbuk'', ''Seoul''), (''Chungnam'', ''Seoul''),
      (''Gyeongbuk'', ''Seoul''), (''Gyeongnam'', ''Seoul''), (''Jeonbuk'', ''Seoul''),
      (''Jeonnam'', ''Seoul''), (''Ulsan'', ''Seoul''), (''Sejong'', ''Seoul''),
      (''Busan'', ''Daegu''), (''Busan'', ''Ulsan''), (''Busan'', ''Gyeongnam''),
      (''Daegu'', ''Gyeongbuk''), (''Daegu'', ''Ulsan''), (''Daejeon'', ''Chungbuk''),
      (''Daejeon'', ''Chungnam''), (''Daejeon'', ''Sejong''), (''Gwangju'', ''Jeonnam''),
      (''Gwangju'', ''Jeonbuk''), (''Gyeonggi'', ''Incheon''), (''Gyeonggi'', ''Gangwon''),
      (''Gyeonggi'', ''Chungbuk''), (''Gyeonggi'', ''Chungnam''), (''Gyeongnam'', ''Jeonnam''),
      (''Jeonbuk'', ''Jeonnam''), (''Jeonbuk'', ''Chungnam''), (''Busan'', ''Gwangju''),
      (''Busan'', ''Daejeon''), (''Busan'', ''Jeonbuk''), (''Daegu'', ''Daejeon''),
      (''Daegu'', ''Gwangju''), (''Incheon'', ''Busan''), (''Busan'', ''Jeju''),
      (''Seoul'', ''Jeju'')]"

subsection \<open>Example inputs\<close>

definition lonelyObservation :: PriceDataPoint where
  "lonelyObservation =
     \<lparr> origin = ''Seoul/A'', destination = ''Busan/B'', vehicleType = ''11t'', unitPrice = 100 \<rparr>"

definition busyRoute :: PriceDataPoint where
  "busyRoute =
     \<lparr> origin = ''Seoul/Gangnam'', destination = ''Busan/Haeundae'', vehicleType = ''11t'',
       unitPrice = 850000 \<rparr>"

definition quietRoute :: PriceDataPoint where
  "quietRoute =
     \<lparr> origin = ''Seoul/Songpa'', destination = ''Busan/Saha'', vehicleType = ''11t'',
       unitPrice = 900000 \<rparr>"

definition demoData :: "PriceDataPoint list" where
  "demoData = [busyRoute, busyRoute, quietRoute, busyRoute, busyRoute, busyRoute]"

definition lonelyResult :: RouteMedianResult where
  "lonelyResult =
     \<lparr> origin = ''Seoul/A'', destination = ''Busan/B'', vehicleType = ''11t'',
       median = 100, sampleSize = 1, filteredSize = 1, q1 = 100, q3 = 100, iqr = 0,
       lowerBound = 0, upperBound = 0, confidenceScore = 29 / 100, isFallback = True,
       fallbackLevel = Some Province \<rparr>"

definition busyResult :: RouteMedianResult where
  "busyResult =
     \<lparr> origin = ''Seoul/Gangnam'', destination = ''Busan/Haeundae'', vehicleType = ''11t'',
       median = 850000, sampleSize = 5, filteredSize = 5, q1 = 850000, q3 = 850000, iqr = 0,
       lowerBound = 850000, upperBound = 850000, confidenceScore = 50 / 100,
       isFallback = False, fallbackLevel = None \<rparr>"

definition provinceResult :: RouteMedianResult where
  "provinceResult =
     \<lparr> origin = ''Seoul'', destination = ''Busan'', vehicleType = ''11t'',
       median = 850000, sampleSize = 6, filteredSize = 5, q1 = 850000, q3 = 850000, iqr = 0,
       lowerBound = 850000, upperBound = 850000, confidenceScore = 36 / 100,
       isFallback = True, fallbackLevel = Some Province \<rparr>"

definition emptyStore :: Store where
  "emptyStore = \<lparr> costMaster = [], marketData = [] \<rparr>"

definition demoRequest :: FPHInput where
  "demoRequest =
     \<lparr> origin = ''Seoul/Gangnam'', destination = ''Busan/Haeundae'', vehicleType = ''11t'',
       freightType = Some ''General'', manualAdjustmentRate = None \<rparr>"

definition demoBatch :: "BatchRequest element list" where
  "demoBatch =
     [Obj \<lparr> reqOrigin = Some ''Seoul/Gangnam'', reqDestination = Some ''Busan/Haeundae'' \<rparr>,
      Nullish,
      Obj \<lparr> reqOrigin = Some ''Incheon/Namdong'', reqDestination = Some ''Gwangju/Buk'' \<rparr>]"

definition demoCalc :: "nat \<Rightarrow> BatchRequest \<Rightarrow> string + FPHResult" where
  "demoCalc i inp =
     (case (reqOrigin inp, reqDestination inp) of
        (Some a, Some b) \<Rightarrow>
          Inr (calculateFPHPrice emptyStore
                 \<lparr> origin = a, destination = b, vehicleType = ''11t'',
                   freightType = None, manualAdjustmentRate = None \<rparr>)
      | _ \<Rightarrow> Inl ''Cannot read properties of undefined'')"

text \<open>An observation with a price of \<open>2 ^ 1023\<close>, about \<open>8.99e307\<close>.\<close>

definition hugeObservation :: PriceDataPoint where
  "hugeObservation =
     \<lparr> origin = ''Seoul/A'', destination = ''Busan/B'', vehicleType = ''11t'',
       unitPrice = 2 ^ 1023 \<rparr>"

text \<open>A request with a manual adjustment rate of \<open>1e12\<close>.\<close>

definition largeAdjustmentRequest :: FPHInput where
  "largeAdjustmentRequest =
     \<lparr> origin = ''Seoul/Gangnam'', destination = ''Busan/Haeundae'', vehicleType = ''11t'',
       freightType = None, manualAdjustmentRate = Some 1000000000000 \<rparr>"


section \<open>Lemmas\<close>

subsection \<open>Freight keywords\<close>

lemma str_includes_toLowerCase:
  "str_includes (toLowerCase s) k \<longleftrightarrow> matchesIgnoringCase s k"
  unfolding str_includes_def sublist_def matchesIgnoringCase_def toLowerCase_def
  by (metis map_eq_append_conv map_append)

lemma list_ex_matchesAny:
  "list_ex (\<lambda>k. str_includes (toLowerCase s) k) ks \<longleftrightarrow> matchesAny s ks"
  by (simp add: list_ex_iff matchesAny_def str_includes_toLowerCase)

lemma matchesAny_empty:
  "[] \<notin> set ks \<Longrightarrow> \<not> matchesAny [] ks"
  by (auto simp: matchesAny_def matchesIgnoringCase_def toLowerCase_def)

lemma toLowerCase_frozen_glass: "toLowerCase ''Frozen Glass'' = ''frozen glass''"
  by code_simp

lemma includes_glass: "str_includes ''frozen glass'' ''glass''"
  unfolding str_includes_def by code_simp

lemma freight_frozen_glass: "getFreightRiskRate (Some ''Frozen Glass'') costs = freight_risk_fragile costs"
  by (simp add: getFreightRiskRate_def toLowerCase_frozen_glass includes_glass fragileKeywords_def)

lemma getFreightRiskRate_cases: "getFreightRiskRate ft costs =
     (case ft of
        None \<Rightarrow> 0
      | Some s \<Rightarrow>
          if matchesAny s fragileKeywords then freight_risk_fragile costs
          else if matchesAny s refrigeratedKeywords then freight_risk_refrigerated costs
          else if matchesAny s hazardousKeywords then freight_risk_hazardous costs
          else 0)"
proof (cases ft)
  case None
  then show ?thesis by (simp add: getFreightRiskRate_def)
next
  case (Some s)
  show ?thesis
  proof (cases "s = []")
    case True
    have "\<not> matchesAny [] fragileKeywords" "\<not> matchesAny [] refrigeratedKeywords"
         "\<not> matchesAny [] hazardousKeywords"
      by (rule matchesAny_empty, simp add: fragileKeywords_def refrigeratedKeywords_def hazardousKeywords_def)+
    with True Some show ?thesis by (simp add: getFreightRiskRate_def)
  next
    case False
    with Some show ?thesis
      by (simp add: getFreightRiskRate_def list_ex_matchesAny Let_def)
  qed
qed

subsection \<open>Route distance\<close>

lemma haversineKm_sym: "haversineKm p q = haversineKm q p"
proof -
  obtain a b c d where pq: "p = (a, b)" "q = (c, d)" by (cases p, cases q) auto
  have s: "(sin (- x))\<^sup>2 = (sin x)\<^sup>2" for x :: real by simp
  have e: "(y - x) * pi / 180 / 2 = - ((x - y) * pi / 180 / 2)" for x y :: real
    by (simp add: field_simps)
  have 1: "(sin ((c - a) * pi / 180 / 2))\<^sup>2 = (sin ((a - c) * pi / 180 / 2))\<^sup>2"
    unfolding e [of c a] by (rule s)
  have 2: "(sin ((d - b) * pi / 180 / 2))\<^sup>2 = (sin ((b - d) * pi / 180 / 2))\<^sup>2"
    unfolding e [of d b] by (rule s)
  show ?thesis
    unfolding pq haversineKm_def Let_def prod.case 1 2
    by (simp only: mult.commute [of "cos (a * pi / 180)"])
qed

lemma sep_unique:
  assumes "p1 @ (c # r) @ p2 = a @ (c # r) @ b" "c \<notin> set a" "c \<notin> set b" "c \<notin> set r"
  shows "p1 = a \<and> p2 = b"
proof -
  have "takeWhile (\<lambda>x. x \<noteq> c) (a @ (c # r) @ b) = a"
    using assms(2) by (induction a) auto
  hence "takeWhile (\<lambda>x. x \<noteq> c) (p1 @ (c # r) @ p2) = a" using assms(1) by simp
  moreover have "prefix (takeWhile (\<lambda>x. x \<noteq> c) (p1 @ (c # r) @ p2)) p1"
  proof (induction p1)
    case Nil
    then show ?case by simp
  next
    case (Cons x xs)
    then show ?case by simp
  qed
  ultimately obtain p' where p': "p1 = a @ p'" by (auto simp: prefix_def)
  show ?thesis
  proof (cases p')
    case Nil
    with p' assms(1) show ?thesis by simp
  next
    case (Cons x xs)
    with p' assms(1) have "x # xs @ (c # r) @ p2 = (c # r) @ b" by simp
    hence "xs @ (c # r) @ p2 = r @ b" by simp
    hence "c \<in> set (r @ b)" by (metis in_set_conv_decomp append_Cons)
    with assms show ?thesis by simp
  qed
qed

lemma corridor_inj:
  "corridor p1 p2 = corridor a b \<Longrightarrow> CHR 0xE2 \<notin> set a \<Longrightarrow> CHR 0xE2 \<notin> set b \<Longrightarrow> p1 = a \<and> p2 = b"
  unfolding corridor_def arrow_def
  by (rule sep_unique [where c = "CHR 0xE2" and r = "[CHR 0x86, CHR 0x92]"]) simp_all

lemma road_keys: "map fst ROAD_DISTANCES = map (\<lambda>(a, b). corridor a b) corridorPairs"
  by (simp add: ROAD_DISTANCES_def corridorPairs_def)

lemma corridorPairs_plain: "(a, b) \<in> set corridorPairs \<Longrightarrow> CHR 0xE2 \<notin> set a \<and> CHR 0xE2 \<notin> set b"
  by (auto simp: corridorPairs_def)

lemma road_key_pair:
  assumes "map_of ROAD_DISTANCES (corridor p1 p2) = Some v"
  shows "(p1, p2) \<in> set corridorPairs"
proof -
  from assms have "corridor p1 p2 \<in> set (map fst ROAD_DISTANCES)"
    by (metis map_of_eq_None_iff option.distinct(1) set_map)
  then obtain a b where ab: "(a, b) \<in> set corridorPairs" "corridor p1 p2 = corridor a b"
    unfolding road_keys by auto
  from corridor_inj [OF ab(2)] corridorPairs_plain [OF ab(1)] ab(1) show ?thesis by simp
qed

lemma road_no_reverse:
  "(a, b) \<in> set corridorPairs \<Longrightarrow> (b, a) \<notin> set corridorPairs"
  unfolding corridorPairs_def by (simp, elim disjE) simp_all

lemma lookupDistance_sym: "lookupDistance p1 p2 = lookupDistance p2 p1"
proof -
  have "map_of ROAD_DISTANCES (corridor x y) = Some v \<Longrightarrow> map_of ROAD_DISTANCES (corridor y x) = None" for x y v
    using road_key_pair road_no_reverse by (metis not_Some_eq)
  then show ?thesis
    unfolding lookupDistance_def Let_def corridor_def [symmetric]
    by (cases "map_of ROAD_DISTANCES (corridor p1 p2)"; cases "map_of ROAD_DISTANCES (corridor p2 p1)") auto
qed

lemma getRouteDistance_sym: "distanceKm (getRouteDistance x y) = distanceKm (getRouteDistance y x)"
  unfolding getRouteDistance_def Let_def
  by (auto simp: lookupDistance_sym [of "extractProvince y" "extractProvince x"] haversineKm_sym split: option.splits)

lemma extractProvince_examples: "extractProvince ''Seoul/X'' = ''Seoul''" "extractProvince ''Busan/Y'' = ''Busan''"
  by (simp_all add: extractProvince_def trim_def isWhitespace_def)

lemma getRouteDistance_examples: "getRouteDistance ''Seoul/X'' ''Busan/Y'' = \<lparr> distanceKm = 325, source = Lookup \<rparr>"
  "getRouteDistance ''Busan/Y'' ''Seoul/X'' = \<lparr> distanceKm = 325, source = Lookup \<rparr>"
  by (simp_all add: getRouteDistance_def extractProvince_examples lookupDistance_def ROAD_DISTANCES_def arrow_def corridor_def)

subsection \<open>Grouping\<close>

lemma map_of_pushPrice:
  "map_of (pushPrice key fresh p m) =
     (map_of m)(key \<mapsto> (case map_of m key of
                           None \<Rightarrow> fresh\<lparr>prices := prices fresh @ [p]\<rparr>
                         | Some g \<Rightarrow> g\<lparr>prices := prices g @ [p]\<rparr>))"
  by (induction m) (auto simp: fun_eq_iff)

lemma keys_pushPrice:
  "map fst (pushPrice key fresh p m) =
     (if key \<in> fst ` set m then map fst m else map fst m @ [key])"
proof (induction m)
  case Nil
  then show ?case by simp
next
  case (Cons a m)
  obtain k g where a: "a = (k, g)" by (cases a)
  show ?case
  proof (cases "k = key")
    case True
    then show ?thesis by (simp add: a)
  next
    case False
    then show ?thesis using Cons by (simp add: a)
  qed
qed

lemma distinct_pushPrice:
  "distinct (map fst m) \<Longrightarrow> distinct (map fst (pushPrice key fresh p m))"
  by (simp add: keys_pushPrice)

lemma groups_distinct:
  "distinct (map fst (foldl (\<lambda>m d. pushPrice (kf d) (mk d) (unitPrice d) m) [] data))"
  by (induction data rule: rev_induct) (simp_all add: distinct_pushPrice)

lemma groups_map_of:
  assumes "\<And>d. prices (mk d) = []"
  shows "map_of (foldl (\<lambda>m d. pushPrice (kf d) (mk d) (unitPrice d) m) [] data) k =
     (case filter (\<lambda>d. kf d = k) data of
        [] \<Rightarrow> None
      | d0 # ds \<Rightarrow> Some ((mk d0)\<lparr>prices := map unitPrice (d0 # ds)\<rparr>))"
proof (induction data rule: rev_induct)
  case Nil
  then show ?case by simp
next
  case (snoc x xs)
  then show ?case
    by (auto simp: map_of_pushPrice assms split: list.splits)
qed

lemma groups_entry:
  assumes "\<And>d. prices (mk d) = []"
    and "(k, g) \<in> set (foldl (\<lambda>m d. pushPrice (kf d) (mk d) (unitPrice d) m) [] data)"
  shows "\<exists>d0 ds. filter (\<lambda>d. kf d = k) data = d0 # ds \<and>
           g = (mk d0)\<lparr>prices := map unitPrice (d0 # ds)\<rparr>"
proof -
  from assms(2) groups_distinct [of kf mk data]
  have "map_of (foldl (\<lambda>m d. pushPrice (kf d) (mk d) (unitPrice d) m) [] data) k = Some g"
    by simp
  then show ?thesis
    unfolding groups_map_of [of mk, OF assms(1)] by (auto split: list.splits)
qed

lemma routeGroups_distinct: "distinct (map fst (routeGroups data))"
  unfolding routeGroups_def Let_def by (rule groups_distinct)

lemma routeGroups_entry:
  assumes "(k, g) \<in> set (routeGroups data)"
  shows "\<exists>d0 ds. filter (\<lambda>d. routeKeyOf d = k) data = d0 # ds \<and>
           origin g = origin d0 \<and> destination g = destination d0 \<and>
           vehicleType g = vehicleType d0 \<and> prices g = map unitPrice (d0 # ds)"
proof -
  from assms groups_entry [where kf = routeKeyOf and data = data and k = k and g = g
       and mk = "\<lambda>d. \<lparr> origin = origin d, destination = destination d,
               vehicleType = vehicleType d, prices = [] \<rparr>"]
  show ?thesis
    unfolding routeGroups_def Let_def by fastforce
qed

lemma routeGroups_map_of:
  "map_of (routeGroups data) k =
     (case filter (\<lambda>d. routeKeyOf d = k) data of
        [] \<Rightarrow> None
      | d0 # ds \<Rightarrow> Some \<lparr> origin = origin d0, destination = destination d0,
               vehicleType = vehicleType d0, prices = map unitPrice (d0 # ds) \<rparr>)"
  unfolding routeGroups_def Let_def
  by (subst groups_map_of) (auto split: list.splits)

lemma provinceGroups_map_of:
  "map_of (provinceGroups data) k =
     (case filter (\<lambda>d. provinceKeyOf d = k) data of
        [] \<Rightarrow> None
      | d0 # ds \<Rightarrow> Some \<lparr> origin = extractProvince (origin d0),
               destination = extractProvince (destination d0),
               vehicleType = vehicleType d0, prices = map unitPrice (d0 # ds) \<rparr>)"
  unfolding provinceGroups_def Let_def
  by (subst groups_map_of) (auto split: list.splits)

lemma trimEnd_take: "rev (dropWhile P (rev ys)) = take (length ys - length (takeWhile P (rev ys))) ys"
  by (simp add: dropWhile_eq_drop rev_drop)

lemma trim_idem: "trim (trim s) = trim s"
proof -
  define y where "y = dropWhile isWhitespace s"
  define z where "z = rev (dropWhile isWhitespace (rev y))"
  have z: "trim s = z" by (simp add: trim_def y_def z_def)
  have hd_y: "y \<noteq> [] \<Longrightarrow> \<not> isWhitespace (hd y)"
    unfolding y_def by (rule hd_dropWhile)
  have "z = take (length y - length (takeWhile isWhitespace (rev y))) y"
    unfolding z_def by (rule trimEnd_take)
  then have "z \<noteq> [] \<Longrightarrow> hd z = hd y \<and> y \<noteq> []"
    by (metis hd_take take_Nil take_eq_Nil2 not_gr_zero take_eq_Nil)
  with hd_y have "dropWhile isWhitespace z = z"
    by (auto simp: dropWhile_eq_self_iff)
  then have "trim z = rev (dropWhile isWhitespace (rev z))" by (simp add: trim_def)
  also have "\<dots> = z" by (simp add: z_def)
  finally show ?thesis by (simp add: z)
qed

lemma set_trim: "set (trim s) \<subseteq> set s"
proof
  fix x assume "x \<in> set (trim s)"
  then have "x \<in> set (dropWhile isWhitespace (rev (dropWhile isWhitespace s)))"
    by (simp add: trim_def)
  then have "x \<in> set (rev (dropWhile isWhitespace s))" by (rule set_dropWhileD)
  then have "x \<in> set (dropWhile isWhitespace s)" by simp
  then show "x \<in> set s" by (rule set_dropWhileD)
qed

lemma extractProvince_idem: "extractProvince (extractProvince s) = extractProvince s"
proof -
  have "CHR ''/'' \<notin> set (takeWhile (\<lambda>c. c \<noteq> CHR ''/'') s)"
    by (auto dest: set_takeWhileD)
  with set_trim have "CHR ''/'' \<notin> set (extractProvince s)"
    unfolding extractProvince_def by blast
  then have "takeWhile (\<lambda>c. c \<noteq> CHR ''/'') (extractProvince s) = extractProvince s"
    by (subst takeWhile_eq_all_conv) blast
  then show ?thesis
    by (metis extractProvince_def trim_idem)
qed

lemma provinceRouteKey_idem:
  "provinceRouteKey (extractProvince a) (extractProvince b) v = provinceRouteKey a b v"
  by (simp add: provinceRouteKey_def extractProvince_idem)

subsection \<open>The result loop\<close>

lemma computeResults_acc:
  "computeResults pgs gs results ps = results @ computeResults pgs gs [] ps"
proof (induction gs arbitrary: results ps)
  case Nil
  then show ?case by simp
next
  case (Cons a gs)
  obtain k g where a: "a = (k, g)" by (cases a)
  show ?case
    unfolding a computeResults.simps Let_def
    using Cons [of "results @ [exactResult g]" ps] Cons [of "[exactResult g]" ps]
      Cons [of "results @ [fallbackResult pgs g (provinceKeyOf g)]" "insert (provinceKeyOf g) ps"]
      Cons [of "[fallbackResult pgs g (provinceKeyOf g)]" "insert (provinceKeyOf g) ps"]
      Cons [of results ps]
    by simp
qed

lemma computeResults_Nil: "computeResults pgs [] [] ps = []"
  by simp

lemma computeResults_Cons:
  "computeResults pgs ((k, g) # rest) [] ps =
     (if MIN_SAMPLE_SIZE \<le> length (prices g) then exactResult g # computeResults pgs rest [] ps
      else if provinceKeyOf g \<in> ps then computeResults pgs rest [] ps
      else fallbackResult pgs g (provinceKeyOf g)
             # computeResults pgs rest [] (insert (provinceKeyOf g) ps))"
  using computeResults_acc [of pgs rest "[exactResult g]" ps]
    computeResults_acc [of pgs rest "[fallbackResult pgs g (provinceKeyOf g)]" "insert (provinceKeyOf g) ps"]
  by (simp add: Let_def)

declare computeResults.simps(2) [simp del]

lemma isFallback_exactResult: "\<not> isFallback (exactResult g)"
  by (simp add: exactResult_def Let_def)

lemma isFallback_fallbackResult: "isFallback (fallbackResult pgs g pk)"
  by (simp add: fallbackResult_def rawFallbackResult_def provinceFallbackResult_def Let_def
      split: option.splits)

lemma labels_exactResult:
  "origin (exactResult g) = origin g" "destination (exactResult g) = destination g"
  "vehicleType (exactResult g) = vehicleType g"
  by (simp_all add: exactResult_def Let_def)

lemma computeResults_members:
  "r \<in> set (computeResults pgs gs [] ps) \<Longrightarrow>
     (\<exists>(k, g) \<in> set gs. MIN_SAMPLE_SIZE \<le> length (prices g) \<and> r = exactResult g) \<or>
     (\<exists>(k, g) \<in> set gs. length (prices g) < MIN_SAMPLE_SIZE \<and> provinceKeyOf g \<notin> ps \<and>
          r = fallbackResult pgs g (provinceKeyOf g))"
proof (induction gs arbitrary: ps)
  case Nil
  then show ?case by simp
next
  case (Cons a gs)
  obtain k g where a: "a = (k, g)" by (cases a)
  consider (big) "MIN_SAMPLE_SIZE \<le> length (prices g)"
    | (seen) "length (prices g) < MIN_SAMPLE_SIZE" "provinceKeyOf g \<in> ps"
    | (new) "length (prices g) < MIN_SAMPLE_SIZE" "provinceKeyOf g \<notin> ps"
    by linarith
  then show ?case
  proof cases
    case big
    with Cons.prems have "r = exactResult g \<or> r \<in> set (computeResults pgs gs [] ps)"
      by (simp add: a computeResults_Cons)
    with big Cons.IH [of ps] show ?thesis by (auto simp: a)
  next
    case seen
    with Cons.prems have "r \<in> set (computeResults pgs gs [] ps)"
      by (simp add: a computeResults_Cons)
    with Cons.IH [of ps] show ?thesis by (auto simp: a)
  next
    case new
    with Cons.prems have "r = fallbackResult pgs g (provinceKeyOf g)
        \<or> r \<in> set (computeResults pgs gs [] (insert (provinceKeyOf g) ps))"
      by (simp add: a computeResults_Cons)
    with new Cons.IH [of "insert (provinceKeyOf g) ps"] show ?thesis by (auto simp: a)
  qed
qed

lemma computeResults_exact:
  "filter (\<lambda>r. \<not> isFallback r) (computeResults pgs gs [] ps) =
     map (\<lambda>kg. exactResult (snd kg))
       (filter (\<lambda>kg. MIN_SAMPLE_SIZE \<le> length (prices (snd kg))) gs)"
proof (induction gs arbitrary: ps)
  case Nil
  then show ?case by simp
next
  case (Cons a gs)
  obtain k g where a: "a = (k, g)" by (cases a)
  show ?case
    by (simp add: a computeResults_Cons Cons isFallback_exactResult isFallback_fallbackResult)
qed

lemma provinceKeyOf_fallbackResult:
  assumes "\<And>pg. map_of pgs (provinceKeyOf g) = Some pg \<Longrightarrow> provinceKeyOf pg = provinceKeyOf g"
  shows "provinceKeyOf (fallbackResult pgs g (provinceKeyOf g)) = provinceKeyOf g"
proof (cases "map_of pgs (provinceKeyOf g)")
  case None
  then show ?thesis by (simp add: fallbackResult_def rawFallbackResult_def Let_def)
next
  case (Some pg)
  with assms have "provinceKeyOf pg = provinceKeyOf g" by simp
  with Some show ?thesis
    by (simp add: fallbackResult_def rawFallbackResult_def provinceFallbackResult_def Let_def)
qed

lemma computeResults_fallback_keys:
  assumes "\<And>k g pg. (k, g) \<in> set gs \<Longrightarrow> map_of pgs (provinceKeyOf g) = Some pg
             \<Longrightarrow> provinceKeyOf pg = provinceKeyOf g"
  shows "distinct (map provinceKeyOf (filter isFallback (computeResults pgs gs [] ps))) \<and>
         set (map provinceKeyOf (filter isFallback (computeResults pgs gs [] ps))) =
           {provinceKeyOf g |k g. (k, g) \<in> set gs \<and> length (prices g) < MIN_SAMPLE_SIZE} - ps"
  using assms
proof (induction gs arbitrary: ps)
  case Nil
  then show ?case by simp
next
  case (Cons a gs)
  obtain k g where a: "a = (k, g)" by (cases a)
  have IH: "distinct (map provinceKeyOf (filter isFallback (computeResults pgs gs [] ps'))) \<and>
         set (map provinceKeyOf (filter isFallback (computeResults pgs gs [] ps'))) =
           {provinceKeyOf g |k g. (k, g) \<in> set gs \<and> length (prices g) < MIN_SAMPLE_SIZE} - ps'" for ps'
    by (rule Cons.IH) (use Cons.prems in auto)
  have pk: "provinceKeyOf (fallbackResult pgs g (provinceKeyOf g)) = provinceKeyOf g"
    by (rule provinceKeyOf_fallbackResult) (use Cons.prems a in auto)
  consider (big) "MIN_SAMPLE_SIZE \<le> length (prices g)"
    | (seen) "length (prices g) < MIN_SAMPLE_SIZE" "provinceKeyOf g \<in> ps"
    | (new) "length (prices g) < MIN_SAMPLE_SIZE" "provinceKeyOf g \<notin> ps"
    by linarith
  then show ?case
  proof cases
    case big
    have "{provinceKeyOf g' |k' g'. (k', g') \<in> set (a # gs) \<and> length (prices g') < MIN_SAMPLE_SIZE}
        = {provinceKeyOf g' |k' g'. (k', g') \<in> set gs \<and> length (prices g') < MIN_SAMPLE_SIZE}"
      using big by (auto simp: a)
    with big IH [of ps] show ?thesis
      by (simp add: a computeResults_Cons isFallback_exactResult)
  next
    case seen
    have "{provinceKeyOf g' |k' g'. (k', g') \<in> set (a # gs) \<and> length (prices g') < MIN_SAMPLE_SIZE}
        = insert (provinceKeyOf g) {provinceKeyOf g' |k' g'. (k', g') \<in> set gs \<and> length (prices g') < MIN_SAMPLE_SIZE}"
      using seen by (auto simp: a)
    with seen IH [of ps] show ?thesis
      by (auto simp: a computeResults_Cons)
  next
    case new
    have "{provinceKeyOf g' |k' g'. (k', g') \<in> set (a # gs) \<and> length (prices g') < MIN_SAMPLE_SIZE}
        = insert (provinceKeyOf g) {provinceKeyOf g' |k' g'. (k', g') \<in> set gs \<and> length (prices g') < MIN_SAMPLE_SIZE}"
      using new by (auto simp: a)
    with new IH [of "insert (provinceKeyOf g) ps"] pk show ?thesis
      by (auto simp: a computeResults_Cons isFallback_fallbackResult)
  qed
qed

subsection \<open>Groups and observations\<close>

lemma samples_nonempty: "samples data k \<noteq> [] \<longleftrightarrow> k \<in> exactKeys data"
  by (auto simp: samples_def exactKeys_def filter_empty_conv)

lemma hd_samples:
  assumes "k \<in> exactKeys data"
  shows "hd (samples data k) \<in> set data" "routeKeyOf (hd (samples data k)) = k"
proof -
  from assms have "samples data k \<noteq> []" by (simp add: samples_nonempty)
  then have "hd (samples data k) \<in> set (samples data k)" by (rule hd_in_set)
  then show "hd (samples data k) \<in> set data" "routeKeyOf (hd (samples data k)) = k"
    by (simp_all add: samples_def)
qed

lemma routeGroups_iff:
  "(k, g) \<in> set (routeGroups data) \<longleftrightarrow>
     k \<in> exactKeys data \<and>
     g = \<lparr> origin = origin (hd (samples data k)), destination = destination (hd (samples data k)),
           vehicleType = vehicleType (hd (samples data k)),
           prices = map unitPrice (samples data k) \<rparr>"
proof -
  have "(k, g) \<in> set (routeGroups data) \<longleftrightarrow> map_of (routeGroups data) k = Some g"
    using routeGroups_distinct [of data] by simp
  also have "\<dots> \<longleftrightarrow> k \<in> exactKeys data \<and>
     g = \<lparr> origin = origin (hd (samples data k)), destination = destination (hd (samples data k)),
           vehicleType = vehicleType (hd (samples data k)),
           prices = map unitPrice (samples data k) \<rparr>"
    unfolding routeGroups_map_of samples_nonempty [symmetric]
    by (cases "samples data k") (auto simp: samples_def)
  finally show ?thesis .
qed

lemma routeGroups_props:
  assumes "(k, g) \<in> set (routeGroups data)"
  shows "k \<in> exactKeys data" "length (prices g) = length (samples data k)"
    "prices g = map unitPrice (samples data k)"
    "routeKeyOf g = k" "provinceKeyOf g = provinceKeyOfExact data k"
  using assms hd_samples [of k data]
  by (simp_all add: routeGroups_iff provinceKeyOfExact_def)

lemma routeGroups_keys: "fst ` set (routeGroups data) = exactKeys data"
proof (rule set_eqI)
  fix k
  have "k \<in> fst ` set (routeGroups data) \<longleftrightarrow> (\<exists>g. (k, g) \<in> set (routeGroups data))"
    by force
  then show "k \<in> fst ` set (routeGroups data) \<longleftrightarrow> k \<in> exactKeys data"
    by (simp add: routeGroups_iff)
qed

lemma provinceGroups_props:
  assumes "map_of (provinceGroups data) P = Some pg"
  shows "provinceKeyOf pg = P" "prices pg = provincePool data P"
proof -
  from assms obtain d0 ds where f: "filter (\<lambda>d. provinceKeyOf d = P) data = d0 # ds"
    and pg: "pg = \<lparr> origin = extractProvince (origin d0),
               destination = extractProvince (destination d0),
               vehicleType = vehicleType d0, prices = map unitPrice (d0 # ds) \<rparr>"
    unfolding provinceGroups_map_of by (auto split: list.splits)
  from f have "d0 \<in> set (filter (\<lambda>d. provinceKeyOf d = P) data)" by simp
  then have "provinceKeyOf d0 = P" by simp
  then show "provinceKeyOf pg = P" by (simp add: pg provinceRouteKey_idem)
  show "prices pg = provincePool data P" by (simp add: pg provincePool_def f)
qed

lemma provinceGroups_present:
  assumes "d \<in> set data"
  shows "\<exists>pg. map_of (provinceGroups data) (provinceKeyOf d) = Some pg"
proof -
  from assms have "filter (\<lambda>x. provinceKeyOf x = provinceKeyOf d) data \<noteq> []"
    by (auto simp: filter_empty_conv)
  then show ?thesis
    unfolding provinceGroups_map_of by (auto split: list.splits)
qed

lemma provincePool_nonempty:
  assumes "k \<in> exactKeys data"
  shows "provincePool data (provinceKeyOfExact data k) \<noteq> []"
  using hd_samples(1) [OF assms]
  by (auto simp: provincePool_def provinceKeyOfExact_def filter_empty_conv)

lemma provinceGroups_of_exact:
  assumes "k \<in> exactKeys data"
  shows "\<exists>pg. map_of (provinceGroups data) (provinceKeyOfExact data k) = Some pg \<and>
           provinceKeyOf pg = provinceKeyOfExact data k \<and>
           prices pg = provincePool data (provinceKeyOfExact data k)"
  using provinceGroups_present [OF hd_samples(1) [OF assms]] provinceGroups_props
  unfolding provinceKeyOfExact_def by blast

subsection \<open>Counting results\<close>

lemma analyze_sorted: "analyzeMarketData data = sort_key (\<lambda>r. - confidenceScore r) (unsortedResults data)"
  by (simp add: analyzeMarketData_def unsortedResults_def Let_def)

lemma analyze_set: "set (analyzeMarketData data) = set (unsortedResults data)"
  by (simp add: analyze_sorted)



lemma distinct_count_one:
  "distinct xs \<Longrightarrow> a \<in> set xs \<Longrightarrow> length (filter (\<lambda>x. x = a) xs) = 1"
  by (induction xs) (auto simp: filter_empty_conv)

lemma distinct_fst_filter:
  "distinct (map fst xs) \<Longrightarrow> (k, v) \<in> set xs \<Longrightarrow> filter (\<lambda>kv. fst kv = k) xs = [(k, v)]"
proof (induction xs)
  case Nil
  then show ?case by simp
next
  case (Cons a xs)
  show ?case
  proof (cases "fst a = k")
    case True
    with Cons.prems have "a = (k, v)" by (cases a) (auto simp: image_iff)
    moreover from True Cons.prems have "filter (\<lambda>kv. fst kv = k) xs = []"
      by (auto simp: filter_empty_conv image_iff)
    ultimately show ?thesis by simp
  next
    case False
    with Cons show ?thesis by auto
  qed
qed

lemma exact_count:
  assumes "k \<in> exactKeys data" "MIN_SAMPLE_SIZE \<le> length (samples data k)"
  shows "length (filter (\<lambda>r. \<not> isFallback r \<and> routeKeyOf r = k) (unsortedResults data)) = 1"
proof -
  let ?G = "routeGroups data"
  let ?big = "\<lambda>kg. MIN_SAMPLE_SIZE \<le> length (prices (snd kg))"
  from assms(1) obtain g where g: "(k, g) \<in> set ?G" by (auto simp: routeGroups_iff)
  with assms(2) have big: "?big (k, g)" by (simp add: routeGroups_props(2))
  have "filter (\<lambda>r. \<not> isFallback r \<and> routeKeyOf r = k) (unsortedResults data)
      = filter (\<lambda>r. routeKeyOf r = k) (filter (\<lambda>r. \<not> isFallback r) (unsortedResults data))"
    by (simp add: conj_commute)
  also have "\<dots> = filter (\<lambda>r. routeKeyOf r = k) (map (\<lambda>kg. exactResult (snd kg)) (filter ?big ?G))"
    by (simp only: unsortedResults_def computeResults_exact)
  also have "\<dots> = map (\<lambda>kg. exactResult (snd kg))
       (filter (\<lambda>kg. routeKeyOf (snd kg) = k) (filter ?big ?G))"
    by (simp add: filter_map comp_def labels_exactResult)
  also have "filter (\<lambda>kg. routeKeyOf (snd kg) = k) (filter ?big ?G)
      = filter ?big (filter (\<lambda>kg. routeKeyOf (snd kg) = k) ?G)"
    by (simp add: conj_commute)
  also have "filter (\<lambda>kg. routeKeyOf (snd kg) = k) ?G = filter (\<lambda>kg. fst kg = k) ?G"
    by (rule filter_cong) (auto simp: routeGroups_props(4))
  also have "\<dots> = [(k, g)]"
    by (rule distinct_fst_filter [OF routeGroups_distinct g])
  finally show ?thesis using big by simp
qed

lemma fallback_keys:
  "distinct (map provinceKeyOf (filter isFallback (unsortedResults data)))"
  "set (map provinceKeyOf (filter isFallback (unsortedResults data))) =
     provinceKeyOfExact data ` {k \<in> exactKeys data. length (samples data k) < MIN_SAMPLE_SIZE}"
proof -
  have *: "distinct (map provinceKeyOf (filter isFallback (unsortedResults data))) \<and>
         set (map provinceKeyOf (filter isFallback (unsortedResults data))) =
           {provinceKeyOf g |k g. (k, g) \<in> set (routeGroups data) \<and> length (prices g) < MIN_SAMPLE_SIZE} - {}"
    unfolding unsortedResults_def
    by (rule computeResults_fallback_keys) (rule provinceGroups_props(1))
  then show "distinct (map provinceKeyOf (filter isFallback (unsortedResults data)))" by simp
  have "{provinceKeyOf g |k g. (k, g) \<in> set (routeGroups data) \<and> length (prices g) < MIN_SAMPLE_SIZE}
      = provinceKeyOfExact data ` {k \<in> exactKeys data. length (samples data k) < MIN_SAMPLE_SIZE}"
  proof (rule set_eqI)
    fix P
    show "P \<in> {provinceKeyOf g |k g. (k, g) \<in> set (routeGroups data) \<and> length (prices g) < MIN_SAMPLE_SIZE}
      \<longleftrightarrow> P \<in> provinceKeyOfExact data ` {k \<in> exactKeys data. length (samples data k) < MIN_SAMPLE_SIZE}"
      (is "?L \<longleftrightarrow> ?R")
    proof
      assume ?L
      then obtain k g where "(k, g) \<in> set (routeGroups data)" "length (prices g) < MIN_SAMPLE_SIZE"
        "P = provinceKeyOf g" by auto
      then show ?R using routeGroups_props [of k g data] by auto
    next
      assume ?R
      then obtain k where k: "k \<in> exactKeys data" "length (samples data k) < MIN_SAMPLE_SIZE"
        "P = provinceKeyOfExact data k" by auto
      then obtain g where g: "(k, g) \<in> set (routeGroups data)" by (auto simp: routeGroups_iff)
      from routeGroups_props(2,5) [OF g] k
      have "length (prices g) < MIN_SAMPLE_SIZE" "P = provinceKeyOf g" by simp_all
      with g show ?L by blast
    qed
  qed
  with * show "set (map provinceKeyOf (filter isFallback (unsortedResults data))) =
     provinceKeyOfExact data ` {k \<in> exactKeys data. length (samples data k) < MIN_SAMPLE_SIZE}"
    by simp
qed

lemma fallback_count:
  assumes "k \<in> exactKeys data" "length (samples data k) < MIN_SAMPLE_SIZE"
  shows "length (filter (\<lambda>r. isFallback r \<and> provinceKeyOf r = provinceKeyOfExact data k)
           (unsortedResults data)) = 1"
proof -
  let ?fk = "map provinceKeyOf (filter isFallback (unsortedResults data))"
  from assms have "provinceKeyOfExact data k \<in> set ?fk"
    unfolding fallback_keys(2) by blast
  with fallback_keys(1) have "length (filter (\<lambda>x. x = provinceKeyOfExact data k) ?fk) = 1"
    by (rule distinct_count_one)
  then show ?thesis by (simp add: filter_map comp_def)
qed



lemma results_origin:
  assumes "r \<in> set (unsortedResults data)"
  shows "if isFallback r
         then \<exists>k \<in> exactKeys data. length (samples data k) < MIN_SAMPLE_SIZE \<and>
                provinceKeyOf r = provinceKeyOfExact data k
         else \<exists>k \<in> exactKeys data. MIN_SAMPLE_SIZE \<le> length (samples data k) \<and> routeKeyOf r = k"
proof (cases "isFallback r")
  case True
  with assms have "provinceKeyOf r \<in> set (map provinceKeyOf (filter isFallback (unsortedResults data)))"
    by simp
  then show ?thesis unfolding fallback_keys(2) using True by auto
next
  case False
  with assms have "r \<in> set (filter (\<lambda>r. \<not> isFallback r) (unsortedResults data))" by simp
  then obtain k g where "(k, g) \<in> set (routeGroups data)" "MIN_SAMPLE_SIZE \<le> length (prices g)"
      "r = exactResult g"
    unfolding unsortedResults_def computeResults_exact by auto
  with routeGroups_props [of k g data] False show ?thesis
    by (auto simp: labels_exactResult)
qed

subsection \<open>Confidence\<close>

lemma foldl_add: "foldl (\<lambda>a v. a + f v) (a0 :: real) vs = a0 + sum_list (map f vs)"
  by (induction vs arbitrary: a0) simp_all

lemma reduce_sum: "foldl (\<lambda>a b. a + b) (0 :: real) vs = sum_list vs"
  using foldl_add [of "\<lambda>v. v" 0 vs] by simp

lemma reduce_squares:
  "foldl (\<lambda>sum v. sum + (v - m)\<^sup>2) (0 :: real) vs = (\<Sum>v\<leftarrow>vs. (v - m)\<^sup>2)"
  using foldl_add [of "\<lambda>v. (v - m)\<^sup>2" 0 vs] by simp

lemma computeConfidence_amended:
  "computeConfidence n vs fb = confidence_amended n vs fb"
  unfolding computeConfidence_def confidence_amended_def roundTo2_def sizeFactor_def
    consistencyFactor_def fallbackPenalty_def populationStdDev_def Let_def
    reduce_sum reduce_squares meanOf_def [symmetric]
  by (simp add: not_less)


lemma sum_squares_nonneg: "0 \<le> (\<Sum>v\<leftarrow>vs. (v - m)\<^sup>2)" for m :: real
  by (rule sum_list_nonneg) auto

lemma consistencyFactor_range: "0 \<le> consistencyFactor vs \<and> consistencyFactor vs \<le> 1"
proof (cases "length vs < 2 \<or> meanOf vs \<le> 0")
  case True
  then show ?thesis by (simp add: consistencyFactor_def)
next
  case False
  then have m: "0 < meanOf vs" by simp
  have "0 \<le> populationStdDev vs"
    unfolding populationStdDev_def using sum_squares_nonneg [where vs = vs and m = "meanOf vs"] by simp
  with m have "0 \<le> populationStdDev vs / meanOf vs" by simp
  with False show ?thesis by (simp add: consistencyFactor_def)
qed

lemma roundTo2_range:
  assumes "0 \<le> x" "x \<le> 1"
  shows "0 \<le> roundTo2 x \<and> roundTo2 x \<le> 1"
proof -
  from assms have "0 \<le> \<lfloor>x * 100 + 1 / 2\<rfloor>" by simp
  moreover from assms have "\<lfloor>x * 100 + 1 / 2\<rfloor> \<le> 100" by (simp add: floor_le_iff)
  ultimately show ?thesis
    unfolding roundTo2_def Math_round_def by simp
qed

lemma confidence_range:
  assumes "0 \<le> n"
  shows "0 \<le> computeConfidence n vs fb \<and> computeConfidence n vs fb \<le> 1"
proof -
  from assms have s: "0 \<le> sizeFactor n" "sizeFactor n \<le> 1" by (simp_all add: sizeFactor_def)
  note c = consistencyFactor_range [of vs]
  have p: "0 \<le> fallbackPenalty fb" "fallbackPenalty fb \<le> 1" by (simp_all add: fallbackPenalty_def)
  let ?raw = "sizeFactor n * (6 / 10) + consistencyFactor vs * (4 / 10)"
  from s c have raw: "0 \<le> ?raw" "?raw \<le> 1" by auto
  from raw p have "0 \<le> ?raw * fallbackPenalty fb" by simp
  moreover from raw p have "?raw * fallbackPenalty fb \<le> 1 * 1"
    by (intro mult_mono) auto
  ultimately show ?thesis
    unfolding computeConfidence_amended confidence_amended_def
    by (intro roundTo2_range) simp_all
qed

subsection \<open>Quantiles and the IQR band\<close>






lemma filtered_length_le: "length (filtered (applyIQRFilter values m)) \<le> length values"
  by (simp add: applyIQRFilter_def sortedNumeric_def Let_def le_trans [OF length_filter_le])

subsection \<open>Results of the analyzer\<close>

lemma result_cases:
  assumes "r \<in> set (unsortedResults data)"
  obtains (exact) k g where "(k, g) \<in> set (routeGroups data)"
      "MIN_SAMPLE_SIZE \<le> length (prices g)" "r = exactResult g"
  | (raw) k g pg where "(k, g) \<in> set (routeGroups data)"
      "length (prices g) < MIN_SAMPLE_SIZE"
      "map_of (provinceGroups data) (provinceKeyOf g) = Some pg"
      "length (prices pg) < MIN_SAMPLE_SIZE" "r = rawFallbackResult g (prices pg)"
  | (province) k g pg where "(k, g) \<in> set (routeGroups data)"
      "length (prices g) < MIN_SAMPLE_SIZE"
      "map_of (provinceGroups data) (provinceKeyOf g) = Some pg"
      "MIN_SAMPLE_SIZE \<le> length (prices pg)" "r = provinceFallbackResult pg"
proof -
  from computeResults_members [OF assms [unfolded unsortedResults_def]]
  consider (a) k g where "(k, g) \<in> set (routeGroups data)"
      "MIN_SAMPLE_SIZE \<le> length (prices g)" "r = exactResult g"
    | (b) k g where "(k, g) \<in> set (routeGroups data)" "length (prices g) < MIN_SAMPLE_SIZE"
      "r = fallbackResult (provinceGroups data) g (provinceKeyOf g)"
    by blast
  then show thesis
  proof cases
    case a
    then show ?thesis by (rule exact)
  next
    case b
    from routeGroups_props(1,5) [OF b(1)] provinceGroups_of_exact [of k data]
    obtain pg where pg: "map_of (provinceGroups data) (provinceKeyOf g) = Some pg" by auto
    show ?thesis
    proof (cases "length (prices pg) < MIN_SAMPLE_SIZE")
      case True
      with b pg show ?thesis by (intro raw [of k g pg]) (simp_all add: fallbackResult_def)
    next
      case False
      with b pg show ?thesis by (intro province [of k g pg]) (simp_all add: fallbackResult_def)
    qed
  qed
qed

lemma fields_exactResult:
  "sampleSize (exactResult g) = length (prices g)"
  "filteredSize (exactResult g) = length (filtered (applyIQRFilter (prices g) (3 / 2)))"
  "confidenceScore (exactResult g) =
     computeConfidence (real (length (prices g))) (filtered (applyIQRFilter (prices g) (3 / 2))) False"
  "fallbackLevel (exactResult g) = None"
  by (simp_all add: exactResult_def Let_def)

lemma fields_rawFallbackResult:
  "origin (rawFallbackResult g ps) = origin g"
  "destination (rawFallbackResult g ps) = destination g"
  "vehicleType (rawFallbackResult g ps) = vehicleType g"
  "isFallback (rawFallbackResult g ps)"
  "fallbackLevel (rawFallbackResult g ps) = Some Province"
  "sampleSize (rawFallbackResult g ps) = length ps"
  "filteredSize (rawFallbackResult g ps) = length ps"
  "confidenceScore (rawFallbackResult g ps) = computeConfidence (real (length ps)) ps True"
  "rawStats ps (rawFallbackResult g ps)"
  by (simp_all add: rawFallbackResult_def rawStats_def Let_def)

lemma fields_provinceFallbackResult:
  "origin (provinceFallbackResult pg) = origin pg"
  "destination (provinceFallbackResult pg) = destination pg"
  "vehicleType (provinceFallbackResult pg) = vehicleType pg"
  "isFallback (provinceFallbackResult pg)"
  "fallbackLevel (provinceFallbackResult pg) = Some Province"
  "sampleSize (provinceFallbackResult pg) = length (prices pg)"
  "filteredSize (provinceFallbackResult pg) = length (filtered (applyIQRFilter (prices pg) (3 / 2)))"
  "confidenceScore (provinceFallbackResult pg) =
     computeConfidence (real (length (prices pg))) (filtered (applyIQRFilter (prices pg) (3 / 2))) True"
  "filteredStats (prices pg) (provinceFallbackResult pg)"
  by (simp_all add: provinceFallbackResult_def filteredStats_def Let_def)

lemma stats_exactResult: "filteredStats (prices g) (exactResult g)"
  by (simp add: exactResult_def filteredStats_def Let_def)

lemma result_description:
  assumes "r \<in> set (unsortedResults data)"
  shows "if isFallback r
         then fallbackLevel r = Some Province \<and>
              (\<exists>k \<in> exactKeys data. length (samples data k) < MIN_SAMPLE_SIZE \<and>
                   provinceKeyOf r = provinceKeyOfExact data k) \<and>
              provincePool data (provinceKeyOf r) \<noteq> [] \<and>
              (let pool = provincePool data (provinceKeyOf r)
               in if length pool < MIN_SAMPLE_SIZE
                  then rawStats pool r \<and>
                       confidenceScore r = computeConfidence (real (length pool)) pool True
                  else filteredStats pool r \<and>
                       confidenceScore r = computeConfidence (real (length pool))
                         (filtered (applyIQRFilter pool (3 / 2))) True)
         else fallbackLevel r = None \<and>
              routeKeyOf r \<in> exactKeys data \<and>
              MIN_SAMPLE_SIZE \<le> length (samples data (routeKeyOf r)) \<and>
              (let pool = map unitPrice (samples data (routeKeyOf r))
               in filteredStats pool r \<and>
                  confidenceScore r = computeConfidence (real (length pool))
                    (filtered (applyIQRFilter pool (3 / 2))) False)"
  using assms
proof (cases rule: result_cases)
  case (exact k g)
  note p = routeGroups_props [OF exact(1)]
  have "routeKeyOf r = k" by (simp add: exact(3) labels_exactResult p(4))
  with exact p show ?thesis
    using stats_exactResult [of g]
    by (simp add: isFallback_exactResult fields_exactResult Let_def)
next
  case (raw k g pg)
  note p = routeGroups_props [OF raw(1)]
  note q = provinceGroups_props [OF raw(3)]
  have pk: "provinceKeyOf r = provinceKeyOfExact data k"
    by (simp add: raw(5) fields_rawFallbackResult p(5))
  have pool: "prices pg = provincePool data (provinceKeyOf r)"
    by (simp add: q(2) pk p(5))
  from p(1) have ne: "provincePool data (provinceKeyOf r) \<noteq> []"
    unfolding pk by (rule provincePool_nonempty)
  from raw(2,4) p(1,2) pk have "\<exists>k \<in> exactKeys data. length (samples data k) < MIN_SAMPLE_SIZE \<and>
                   provinceKeyOf r = provinceKeyOfExact data k" by auto
  with raw(4) ne show ?thesis
    unfolding pool [symmetric] Let_def
    by (simp add: raw(5) fields_rawFallbackResult)
next
  case (province k g pg)
  note p = routeGroups_props [OF province(1)]
  note q = provinceGroups_props [OF province(3)]
  have pk: "provinceKeyOf r = provinceKeyOfExact data k"
    by (simp add: province(5) fields_provinceFallbackResult q(1) p(5))
  have pool: "prices pg = provincePool data (provinceKeyOf r)"
    by (simp add: q(2) pk p(5))
  from p(1) have ne: "provincePool data (provinceKeyOf r) \<noteq> []"
    unfolding pk by (rule provincePool_nonempty)
  from province(2,4) p(1,2) pk have "\<exists>k \<in> exactKeys data. length (samples data k) < MIN_SAMPLE_SIZE \<and>
                   provinceKeyOf r = provinceKeyOfExact data k" by auto
  with province(4) ne show ?thesis
    unfolding pool [symmetric] Let_def
    by (simp add: province(5) fields_provinceFallbackResult not_less [symmetric])
qed

lemma filter_length_one_ex: "length (filter P xs) = 1 \<Longrightarrow> \<exists>x \<in> set xs. P x"
  by (metis filter_False length_0_conv zero_neq_one)

subsection \<open>Default branch of the quantile function, and the batch loop\<close>











lemma batchLoop_from:
  "i \<le> length inputs \<Longrightarrow>
   batchLoop calc (map Obj inputs) i results errors =
     Inr (results @ concat (map (\<lambda>j. case calc j (inputs ! j) of Inr r \<Rightarrow> [r] | Inl msg \<Rightarrow> [])
                   [i ..< length inputs]),
      errors @ concat (map (\<lambda>j. case calc j (inputs ! j) of
                        Inr r \<Rightarrow> []
                      | Inl msg \<Rightarrow> [\<lparr> index = j, route = routeLabel (inputs ! j),
                                      message = errorMessage msg \<rparr>])
                   [i ..< length inputs]))"
proof (induction "length inputs - i" arbitrary: i results errors)
  case 0
  then have "\<not> i < length (map Obj inputs)" by simp
  moreover from 0 have "[i ..< length inputs] = []" by simp
  ultimately show ?case by (subst batchLoop.simps) simp
next
  case (Suc n)
  then have lt: "i < length inputs" by simp
  then have upt: "[i ..< length inputs] = i # [i + 1 ..< length inputs]"
    by (simp add: upt_conv_Cons)
  from Suc have n: "n = length inputs - (i + 1)" "i + 1 \<le> length inputs" by simp_all
  show ?case
  proof (cases "calc i (inputs ! i)")
    case (Inl msg)
    with lt Suc.hyps(1) [OF n] show ?thesis
      by (subst batchLoop.simps)
         (simp add: upt Let_def tryCalculate_def readRouteLabel_def)
  next
    case (Inr r)
    with lt Suc.hyps(1) [OF n] show ?thesis
      by (subst batchLoop.simps)
         (simp add: upt Let_def tryCalculate_def readRouteLabel_def)
  qed
qed

lemma runBatchSimulation_eq:
  "runBatchSimulation calc (map Obj inputs) = Inr (successesOf calc inputs, failuresOf calc inputs)"
  unfolding runBatchSimulation_def successesOf_def failuresOf_def
  by (subst batchLoop_from) simp_all

lemma batchLoop_nullish:
  "Nullish \<in> set (drop i inputs) \<Longrightarrow> batchLoop calc inputs i results errors = Inl TypeError"
proof (induction "length inputs - i" arbitrary: i results errors)
  case 0
  then have "drop i inputs = []" by simp
  with "0.prems" have False by simp
  then show ?case ..
next
  case (Suc n)
  then have lt: "i < length inputs" by simp
  from Suc have n: "n = length inputs - (Suc i)" by simp
  show ?case
  proof (cases "inputs ! i")
    case Nullish
    with lt show ?thesis
      by (subst batchLoop.simps) (simp add: Let_def tryCalculate_def readRouteLabel_def)
  next
    case (Obj inp)
    have "drop i inputs = inputs ! i # drop (Suc i) inputs"
      using lt by (simp add: Cons_nth_drop_Suc)
    with Suc.prems Obj have "Nullish \<in> set (drop (Suc i) inputs)" by simp
    note ih = Suc.hyps(1) [OF n this]
    from lt Obj show ?thesis
      by (subst batchLoop.simps)
         (simp add: Let_def tryCalculate_def readRouteLabel_def ih split: sum.splits)
  qed
qed

lemma runBatchSimulation_nullish:
  "Nullish \<in> set inputs \<Longrightarrow> runBatchSimulation calc inputs = Inl TypeError"
  unfolding runBatchSimulation_def by (rule batchLoop_nullish) simp

lemma batch_count:
  "length (successesOf calc inputs) + length (failuresOf calc inputs) = length inputs"
proof -
  have "length (concat (map (\<lambda>j. case calc j (inputs ! j) of Inr r \<Rightarrow> [r] | Inl msg \<Rightarrow> []) js))
      + length (concat (map (\<lambda>j. case calc j (inputs ! j) of
                        Inr r \<Rightarrow> []
                      | Inl msg \<Rightarrow> [\<lparr> index = j, route = routeLabel (inputs ! j),
                                      message = errorMessage msg \<rparr>]) js)) = length js" for js
    by (induction js) (auto split: sum.splits)
  from this [of "[0 ..< length inputs]"] show ?thesis
    by (simp add: successesOf_def failuresOf_def)
qed

lemma concat_pick:
  "concat (map (\<lambda>j. if j = i then xs else []) [0 ..< n]) = (if i < n then xs else [])"
  by (induction n) auto

lemma failures_at:
  assumes "i < length inputs"
  shows "filter (\<lambda>e. index e = i) (failuresOf calc inputs) =
     (case calc i (inputs ! i) of
        Inr r \<Rightarrow> []
      | Inl msg \<Rightarrow> [\<lparr> index = i, route = routeLabel (inputs ! i), message = errorMessage msg \<rparr>])"
proof -
  let ?g = "\<lambda>j. case calc j (inputs ! j) of
                        Inr r \<Rightarrow> []
                      | Inl msg \<Rightarrow> [\<lparr> index = j, route = routeLabel (inputs ! j),
                                      message = errorMessage msg \<rparr>]"
  have "filter (\<lambda>e. index e = i) (?g j) = (if j = i then ?g i else [])" for j
    by (auto split: sum.splits)
  then have "filter (\<lambda>e. index e = i) (failuresOf calc inputs)
      = concat (map (\<lambda>j. if j = i then ?g i else []) [0 ..< length inputs])"
    by (simp add: failuresOf_def filter_concat comp_def)
  with assms show ?thesis by (simp add: concat_pick)
qed

lemma routeLabel_present:
  "reqOrigin inp = Some a \<Longrightarrow> reqDestination inp = Some b \<Longrightarrow>
     routeLabel inp = a @ '' '' @ arrow @ '' '' @ b"
  by (simp add: routeLabel_def)

subsection \<open>The analyzer on the example inputs\<close>

lemmas string_eval = extractProvince_def trim_def isWhitespace_def routeKey_def provinceRouteKey_def

lemma lonely_groups:
  "routeGroups [lonelyObservation] =
     [(''Seoul/A||Busan/B||11t'',
       \<lparr> origin = ''Seoul/A'', destination = ''Busan/B'', vehicleType = ''11t'', prices = [100] \<rparr>)]"
  "provinceGroups [lonelyObservation] =
     [(''Seoul||Busan||11t'',
       \<lparr> origin = ''Seoul'', destination = ''Busan'', vehicleType = ''11t'', prices = [100] \<rparr>)]"
  by (simp_all add: routeGroups_def provinceGroups_def lonelyObservation_def string_eval)

lemma lonely_confidence: "computeConfidence 1 [100] True = 29 / 100"
  by (simp add: computeConfidence_def Math_round_def)

lemma analyze_lonely: "analyzeMarketData [lonelyObservation] = [lonelyResult]"
  by (simp add: analyzeMarketData_def lonely_groups computeResults.simps MIN_SAMPLE_SIZE_def
      string_eval fallbackResult_def rawFallbackResult_def lonely_confidence medianOf_def
      quantile_def sortedNumeric_def Math_round_def Let_def lonelyResult_def)

lemma demo_groups:
  "routeGroups demoData =
     [(''Seoul/Gangnam||Busan/Haeundae||11t'',
       \<lparr> origin = ''Seoul/Gangnam'', destination = ''Busan/Haeundae'', vehicleType = ''11t'',
         prices = [850000, 850000, 850000, 850000, 850000] \<rparr>),
      (''Seoul/Songpa||Busan/Saha||11t'',
       \<lparr> origin = ''Seoul/Songpa'', destination = ''Busan/Saha'', vehicleType = ''11t'',
         prices = [900000] \<rparr>)]"
  "provinceGroups demoData =
     [(''Seoul||Busan||11t'',
       \<lparr> origin = ''Seoul'', destination = ''Busan'', vehicleType = ''11t'',
         prices = [850000, 850000, 900000, 850000, 850000, 850000] \<rparr>)]"
  by (simp_all add: routeGroups_def provinceGroups_def demoData_def busyRoute_def quietRoute_def
      string_eval)

lemma demo_filter_exact:
  "applyIQRFilter [850000, 850000, 850000, 850000, 850000] (3 / 2) =
     \<lparr> filtered = [850000, 850000, 850000, 850000, 850000], q1' = 850000, q3' = 850000,
       iqr' = 0, lowerBound' = 850000, upperBound' = 850000 \<rparr>"
  by (simp add: applyIQRFilter_def sortedNumeric_def quantile_def Let_def)

lemma demo_filter_pool:
  "applyIQRFilter [850000, 850000, 900000, 850000, 850000, 850000] (3 / 2) =
     \<lparr> filtered = [850000, 850000, 850000, 850000, 850000], q1' = 850000, q3' = 850000,
       iqr' = 0, lowerBound' = 850000, upperBound' = 850000 \<rparr>"
  by (simp add: applyIQRFilter_def sortedNumeric_def quantile_def Let_def)

lemma demo_confidence:
  "computeConfidence 5 [850000, 850000, 850000, 850000, 850000] False = 50 / 100"
  "computeConfidence 6 [850000, 850000, 850000, 850000, 850000] True = 36 / 100"
  by (simp_all add: computeConfidence_def Math_round_def)

lemma demo_median: "medianOf (sortedNumeric [850000, 850000, 850000, 850000, 850000]) = 850000"
  by (simp add: medianOf_def sortedNumeric_def quantile_def Let_def)

lemma demo_exact:
  "exactResult \<lparr> origin = ''Seoul/Gangnam'', destination = ''Busan/Haeundae'', vehicleType = ''11t'',
         prices = [850000, 850000, 850000, 850000, 850000] \<rparr> = busyResult"
  by (simp add: exactResult_def demo_filter_exact demo_median demo_confidence Math_round_def
      busyResult_def Let_def)

lemma demo_province:
  "provinceFallbackResult \<lparr> origin = ''Seoul'', destination = ''Busan'', vehicleType = ''11t'',
         prices = [850000, 850000, 900000, 850000, 850000, 850000] \<rparr> = provinceResult"
  by (simp add: provinceFallbackResult_def demo_filter_pool demo_median demo_confidence
      Math_round_def provinceResult_def Let_def)

lemma analyze_demo: "analyzeMarketData demoData = [busyResult, provinceResult]"
proof -
  have "unsortedResults demoData = [busyResult, provinceResult]"
    by (simp add: unsortedResults_def demo_groups computeResults.simps MIN_SAMPLE_SIZE_def
        string_eval fallbackResult_def demo_exact demo_province Let_def)
  then show ?thesis
    by (simp add: analyze_sorted busyResult_def provinceResult_def)
qed

lemma demo_keys:
  "exactKeys demoData = {''Seoul/Gangnam||Busan/Haeundae||11t'', ''Seoul/Songpa||Busan/Saha||11t''}"
  "length (samples demoData ''Seoul/Gangnam||Busan/Haeundae||11t'') = 5"
  "length (samples demoData ''Seoul/Songpa||Busan/Saha||11t'') = 1"
  "provinceKeyOfExact demoData ''Seoul/Songpa||Busan/Saha||11t'' = ''Seoul||Busan||11t''"
  "provincePool demoData ''Seoul||Busan||11t'' = [850000, 850000, 900000, 850000, 850000, 850000]"
  by (auto simp: exactKeys_def samples_def provinceKeyOfExact_def provincePool_def demoData_def
      busyRoute_def quietRoute_def string_eval)

subsection \<open>Market lookup, rounding and keywords\<close>

lemma findMarketMedian_None_iff:
  "findMarketMedian table a b v = None \<longleftrightarrow>
     \<not> (\<exists>r \<in> set (analyzeMarketData (filter (\<lambda>d. vehicleType d = v) table)).
          origin r = a \<and> destination r = b) \<and>
     \<not> (\<exists>r \<in> set (analyzeMarketData (filter (\<lambda>d. vehicleType d = v) table)).
          isFallback r \<and> origin r = extractProvince a \<and> destination r = extractProvince b)"
proof (cases "filter (\<lambda>d. vehicleType d = v) table = []")
  case True
  then show ?thesis
    by (simp add: findMarketMedian_def analyzeMarketData_def routeGroups_def)
next
  case False
  have "map (\<lambda>d. \<lparr> origin = origin d, destination = destination d,
                              vehicleType = vehicleType d, unitPrice = unitPrice d \<rparr>) xs = xs"
    for xs :: "PriceDataPoint list"
    by (induction xs) simp_all
  with False have "findMarketMedian table a b v = None \<longleftrightarrow>
      find (\<lambda>r. origin r = a \<and> destination r = b)
        (analyzeMarketData (filter (\<lambda>d. vehicleType d = v) table)) = None \<and>
      find (\<lambda>r. isFallback r \<and> origin r = extractProvince a \<and> destination r = extractProvince b)
        (analyzeMarketData (filter (\<lambda>d. vehicleType d = v) table)) = None"
    by (simp add: findMarketMedian_def Let_def split: option.splits)
  then show ?thesis
    unfolding find_None_iff by blast
qed

lemma ceilTo1000_bounds: "v \<le> ceilTo1000 v" "ceilTo1000 v < v + 1000"
  unfolding ceilTo1000_def Math_ceil_def by linarith+

lemma matches_frozen: "matchesAny ''Frozen food'' refrigeratedKeywords"
  unfolding matchesAny_def matchesIgnoringCase_def refrigeratedKeywords_def
proof (intro bexI exI conjI)
  show "''Frozen food'' = [] @ ''Frozen'' @ '' food''" by simp
  show "toLowerCase ''Frozen'' = ''frozen''" by code_simp
  show "''frozen'' \<in> set [''refrigerated'', ''frozen'', ''chilled'', ''cold'']" by simp
qed

lemma no_fragile_in_frozen: "\<not> matchesAny ''Frozen food'' fragileKeywords"
proof -
  have "\<not> list_ex (\<lambda>k. str_includes (toLowerCase ''Frozen food'') k) fragileKeywords"
    unfolding str_includes_def by code_simp
  then show ?thesis by (simp add: list_ex_matchesAny)
qed


subsection \<open>Key strings and routes\<close>





subsection \<open>Double-precision arithmetic\<close>

text \<open>
  Rounding is evaluated from the binary exponent: for \<open>p = 2 ^ e \<le> |x| < 2 p\<close> the unit
  in the last place is \<open>p / 2 ^ 52\<close>.
\<close>

lemma floor_log2:
  assumes "2 powr of_int e \<le> \<bar>x\<bar>" "\<bar>x\<bar> < 2 powr of_int (e + 1)"
  shows "\<lfloor>log 2 \<bar>x\<bar>\<rfloor> = e"
proof -
  have "(0::real) < 2 powr of_int e" by simp
  with assms(1) have pos: "0 < \<bar>x\<bar>" by linarith
  have "of_int e \<le> log 2 \<bar>x\<bar>" using assms(1) pos by (simp add: le_log_iff)
  moreover have "log 2 \<bar>x\<bar> < of_int (e + 1)" using assms(2) pos by (simp add: log_less_iff)
  ultimately show ?thesis by linarith
qed

lemma roundHalfEven_bounds:
  "\<lfloor>x\<rfloor> \<le> roundHalfEven x" "roundHalfEven x \<le> \<lfloor>x\<rfloor> + 1"
  by (simp_all add: roundHalfEven_def Let_def)

lemma roundHalfEven_abs:
  assumes "\<bar>x\<bar> < of_int N"
  shows "\<bar>roundHalfEven x\<bar> \<le> N"
proof -
  from assms have "x < of_int N" "- of_int N < x" by linarith+
  then have "\<lfloor>x\<rfloor> + 1 \<le> N" "- N \<le> \<lfloor>x\<rfloor>" by linarith+
  with roundHalfEven_bounds [of x] show ?thesis by linarith
qed

lemma roundToDouble_eval_gen:
  assumes p: "p = 2 powr of_int e" and lo: "p \<le> \<bar>x\<bar>" and hi: "\<bar>x\<bar> < 2 * p"
    and e: "- 1022 \<le> e"
    and u: "u = p / 2 ^ 52" and m: "roundHalfEven (x / u) = m"
    and fin: "\<bar>of_int m * u\<bar> < overflowBound"
  shows "roundToDouble x = Finite (of_int m * u)"
proof -
  have ppos: "0 < p" by (simp add: p)
  have "x \<noteq> 0" using lo ppos by auto
  have "2 powr of_int (e + 1) = 2 * p" by (simp add: p powr_add)
  with lo hi have fl: "\<lfloor>log 2 \<bar>x\<bar>\<rfloor> = e" by (intro floor_log2) (simp_all add: p)
  have ulp: "2 powr of_int (e - 52) = u"
    by (simp add: u p powr_diff)
  from fin have "\<not> overflowBound \<le> \<bar>of_int m * u\<bar>" by simp
  with \<open>x \<noteq> 0\<close> fl e ulp m show ?thesis
    by (simp add: roundToDouble_def Let_def)
qed

lemma roundToDouble_eval:
  assumes p: "p = 2 powr of_int e" and lo: "p \<le> \<bar>x\<bar>" and hi: "\<bar>x\<bar> < 2 * p"
    and e: "- 1022 \<le> e" "e \<le> 1022"
    and u: "u = p / 2 ^ 52" and m: "roundHalfEven (x / u) = m"
  shows "roundToDouble x = Finite (of_int m * u)"
proof -
  have ppos: "0 < p" by (simp add: p)
  have upos: "0 < u" by (simp add: u ppos)
  have "\<bar>x / u\<bar> < 2 ^ 53"
  proof -
    have "\<bar>x / u\<bar> = \<bar>x\<bar> / u" using upos by simp
    also have "\<dots> < 2 * p / u" using hi upos by (simp add: divide_strict_right_mono)
    also have "\<dots> = 2 ^ 53" using ppos by (simp add: u)
    finally show ?thesis .
  qed
  then have "\<bar>x / u\<bar> < of_int (2 ^ 53)" by simp
  then have "\<bar>roundHalfEven (x / u)\<bar> \<le> 2 ^ 53" by (rule roundHalfEven_abs)
  then have "\<bar>real_of_int m\<bar> \<le> 2 ^ 53" using m
    by (metis (mono_tags) of_int_abs of_int_le_iff of_int_numeral of_int_power)
  then have "\<bar>of_int m * u\<bar> \<le> 2 ^ 53 * u"
    using upos by (simp add: abs_mult mult_right_mono)
  also have "\<dots> = 2 powr of_int (e + 1)" using ppos by (simp add: u p powr_add)
  also have "\<dots> \<le> 2 powr of_int 1023" using e by (intro powr_mono) simp_all
  also have "\<dots> < overflowBound"
    by (simp add: overflowBound_def)
  finally have "\<bar>of_int m * u\<bar> < overflowBound" .
  with p lo hi e(1) u m show ?thesis by (rule roundToDouble_eval_gen)
qed

lemma roundToDouble_overflow:
  assumes "overflowBound \<le> x"
  shows "roundToDouble x = PlusInfinity"
proof -
  have ob: "overflowBound = 2 powr 1024" by (simp add: overflowBound_def)
  have xpos: "0 < x" using assms by (simp add: overflowBound_def)
  define e where "e = \<lfloor>log 2 \<bar>x\<bar>\<rfloor>"
  have "(1024::real) \<le> log 2 x" using assms xpos unfolding ob by (simp add: le_log_iff)
  then have e1024: "1024 \<le> e" unfolding e_def using xpos by (simp add: le_floor_iff)
  have "of_int e \<le> log 2 x" unfolding e_def using xpos by simp
  then have pe: "2 powr of_int e \<le> x" using xpos by (simp add: le_log_iff)
  define u :: real where "u = 2 powr of_int (e - 52)"
  have upos: "0 < u" by (simp add: u_def)
  have eu: "2 powr of_int e = 2 ^ 52 * u" by (simp add: u_def powr_diff)
  with pe have "2 ^ 52 \<le> x / u" using upos by (simp add: pos_le_divide_eq)
  then have "of_int (2 ^ 52) \<le> x / u" by simp
  then have "2 ^ 52 \<le> \<lfloor>x / u\<rfloor>" by (simp only: le_floor_iff)
  with roundHalfEven_bounds(1) [of "x / u"] have "2 ^ 52 \<le> roundHalfEven (x / u)" by linarith
  then have "(2::real) ^ 52 \<le> of_int (roundHalfEven (x / u))"
    by (metis of_int_le_iff of_int_numeral of_int_power)
  then have "2 ^ 52 * u \<le> of_int (roundHalfEven (x / u)) * u"
    using upos by (simp add: mult_right_mono)
  moreover have "overflowBound \<le> 2 ^ 52 * u"
  proof -
    have "(2::real) powr 1024 \<le> 2 powr of_int e" using e1024 by (intro powr_mono) simp_all
    then show ?thesis unfolding eu ob .
  qed
  ultimately have big: "overflowBound \<le> \<bar>of_int (roundHalfEven (x / u)) * u\<bar>" by linarith
  have fl: "max \<lfloor>log 2 \<bar>x\<bar>\<rfloor> (- 1022) = e" using e1024 by (simp add: e_def)
  have "x \<noteq> 0" using xpos by simp
  show ?thesis
    unfolding roundToDouble_def Let_def fl u_def [symmetric]
    using xpos big by simp
qed

lemma js_add_NaN [simp]: "js_add x NaN = NaN"
  by (cases x) simp_all

lemma js_mul_NaN [simp]: "js_mul NaN y = NaN" "js_mul x NaN = NaN"
  by (cases y; simp) (cases x; simp)

lemma js_div_NaN [simp]: "js_div x NaN = NaN"
  by (cases x) simp_all

lemma pow1023_double: "roundToDouble (2 ^ 1023) = Finite (2 ^ 1023)"
proof -
  have "roundToDouble (2 ^ 1023) = Finite (of_int (2 ^ 52) * (2 ^ 1023 / 2 ^ 52))"
  proof (rule roundToDouble_eval_gen [where e = 1023 and p = "2 ^ 1023"])
    show "(2::real) ^ 1023 = 2 powr of_int 1023" by (simp add: powr_realpow [symmetric])
    show "roundHalfEven (2 ^ 1023 / (2 ^ 1023 / 2 ^ 52)) = 2 ^ 52"
      by (simp add: roundHalfEven_def)
    show "\<bar>of_int (2 ^ 52) * ((2::real) ^ 1023 / 2 ^ 52)\<bar> < overflowBound"
      by (simp add: overflowBound_def)
  qed simp_all
  then show ?thesis by simp
qed

lemma sum_overflows:
  "js_add (js_add (Finite 0) (Finite (2 ^ 1023))) (Finite (2 ^ 1023)) = PlusInfinity"
proof -
  have "overflowBound \<le> 2 ^ 1023 + 2 ^ 1023" by (simp add: overflowBound_def)
  then have "roundToDouble (2 ^ 1023 + 2 ^ 1023) = PlusInfinity" by (rule roundToDouble_overflow)
  then show ?thesis using pow1023_double by simp
qed

lemma confidence_overflow:
  "computeConfidence_double n [Finite (2 ^ 1023), Finite (2 ^ 1023)] fb
     = NaN"
proof -
  let ?A = "Finite (2 ^ 1023)"
  have s: "foldl (\<lambda>a b. js_add a b) (Finite 0) [?A, ?A] = PlusInfinity"
    by (simp only: foldl.simps sum_overflows)
  have mean: "js_div PlusInfinity (Finite (real (length [?A, ?A]))) = PlusInfinity"
    by (simp add: signOf_def)
  have d: "js_sub ?A PlusInfinity = MinusInfinity"
    by (simp only: js_sub_def js_neg.simps js_add.simps)
  have sq: "js_mul MinusInfinity MinusInfinity = PlusInfinity" by (simp add: signOf_def)
  have v: "foldl (\<lambda>sum v. js_add sum (js_mul (js_sub v PlusInfinity) (js_sub v PlusInfinity)))
             (Finite 0) [?A, ?A] = PlusInfinity"
    by (simp only: foldl.simps d sq js_add.simps)
  have cv: "js_div (Math_sqrt_double PlusInfinity) PlusInfinity = NaN" by simp
  have cf: "Math_max_double (Finite 0) (js_sub (Finite 1) NaN) = NaN"
    by (simp add: Math_max_double_def js_sub_def)
  have gt: "js_gt PlusInfinity (Finite 0)" by (simp add: js_gt_def)
  have len: "2 \<le> length [?A, ?A]" by simp
  show ?thesis
    unfolding computeConfidence_double_def Let_def s mean
    using gt len
    by (simp only: if_True v mean cv cf js_mul_NaN js_add_NaN Math_round_double.simps
          js_div.simps(2))
qed

lemma lit_008: "roundToDouble (8 / 100) = Finite (5764607523034235 / 2 ^ 56)"
proof -
  have "roundToDouble (8 / 100) = Finite (of_int 5764607523034235 * (1 / 2 ^ 4 / 2 ^ 52))"
    by (rule roundToDouble_eval [where e = "- 4" and p = "1 / 2 ^ 4"])
       (simp_all add: roundHalfEven_def powr_minus_divide)
  then show ?thesis by simp
qed

lemma mul_margin:
  "js_mul (Finite 393546) (Finite (5764607523034235 / 2 ^ 56))
     = Finite (4327084030647337 / 2 ^ 37)"
proof -
  have "roundToDouble (393546 * (5764607523034235 / 2 ^ 56)) = Finite (of_int 8654168061294674 * (2 ^ 14 / 2 ^ 52))"
    by (rule roundToDouble_eval [where e = 14 and p = "2 ^ 14"])
       (simp_all add: roundHalfEven_def)
  then show ?thesis by simp
qed

lemma mul_manual: "js_mul (Finite 393546) (Finite 1000000000000) = Finite 393546000000000000"
proof -
  have "roundToDouble (393546 * 1000000000000) = Finite (of_int 6149156250000000 * (2 ^ 58 / 2 ^ 52))"
    by (rule roundToDouble_eval [where e = 58 and p = "2 ^ 58"])
       (simp_all add: roundHalfEven_def)
  then show ?thesis by simp
qed

lemma add_margin: "js_add (Finite 393546) (Finite 31484) = Finite 425030"
proof -
  have "roundToDouble (393546 + 31484) = Finite (of_int 7301959799275520 * (2 ^ 18 / 2 ^ 52))"
    by (rule roundToDouble_eval [where e = 18 and p = "2 ^ 18"])
       (simp_all add: roundHalfEven_def)
  then show ?thesis by simp
qed

lemma add_surcharge: "js_add (Finite 425030) (Finite 0) = Finite 425030"
proof -
  have "roundToDouble (425030 + 0) = Finite (of_int 7301959799275520 * (2 ^ 18 / 2 ^ 52))"
    by (rule roundToDouble_eval [where e = 18 and p = "2 ^ 18"])
       (simp_all add: roundHalfEven_def)
  then show ?thesis by simp
qed

lemma add_manual:
  "js_add (Finite 425030) (Finite 393546000000000000)
     = Finite 393546000000425024"
proof -
  have "roundToDouble (425030 + 393546000000000000) = Finite (of_int 6149156250006641 * (2 ^ 58 / 2 ^ 52))"
    by (rule roundToDouble_eval [where e = 58 and p = "2 ^ 58"])
       (simp_all add: roundHalfEven_def)
  then show ?thesis by simp
qed

lemma div_subtotal: "js_div (Finite 393546000000425024) (Finite 1000) = Finite 393546000000425"
proof -
  have "roundToDouble (393546000000425024 / 1000) = Finite (of_int 6296736000006800 * (2 ^ 48 / 2 ^ 52))"
    by (rule roundToDouble_eval [where e = 48 and p = "2 ^ 48"])
       (simp_all add: roundHalfEven_def)
  then show ?thesis by simp
qed

lemma mul_thousands:
  "js_mul (Finite 393546000000425) (Finite 1000)
     = Finite 393546000000425024"
proof -
  have "roundToDouble (393546000000425 * 1000) = Finite (of_int 6149156250006641 * (2 ^ 58 / 2 ^ 52))"
    by (rule roundToDouble_eval [where e = 58 and p = "2 ^ 58"])
       (simp_all add: roundHalfEven_def)
  then show ?thesis by simp
qed

lemma div_large:
  "js_div (Finite 100000000000000016) (Finite 1000)
     = Finite (6400000000000001 / 2 ^ 6)"
proof -
  have "roundToDouble (100000000000000016 / 1000) = Finite (of_int 6400000000000001 * (2 ^ 46 / 2 ^ 52))"
    by (rule roundToDouble_eval [where e = 46 and p = "2 ^ 46"])
       (simp_all add: roundHalfEven_def)
  then show ?thesis by simp
qed

lemma mul_large: "js_mul (Finite 100000000000001) (Finite 1000) = Finite 100000000000000992"
proof -
  have "roundToDouble (100000000000001 * 1000) = Finite (of_int 6250000000000062 * (2 ^ 56 / 2 ^ 52))"
    by (rule roundToDouble_eval [where e = 56 and p = "2 ^ 56"])
       (simp_all add: roundHalfEven_def)
  then show ?thesis by simp
qed

lemma ceil_large: "Math_ceil (6400000000000001 / 2 ^ 6) = 100000000000001"
proof -
  have "\<lceil>6400000000000001 / 2 ^ 6 :: real\<rceil> = 100000000000001" by (simp add: ceiling_unique)
  then show ?thesis by (simp add: Math_ceil_def)
qed

lemma ceilTo1000_large:
  "ceilTo1000_double (Finite 100000000000000016)
     = Finite 100000000000000992"
  by (simp only: ceilTo1000_double_def div_large Math_ceil_double.simps ceil_large mul_large)

lemma rem_large: "js_rem (Finite 100000000000000992) (Finite 1000) = Finite 992"
proof -
  have "\<lfloor>100000000000000992 / 1000 :: real\<rfloor> = 100000000000000" by (simp add: floor_unique)
  then show ?thesis by simp
qed

lemma round_margin: "Math_round (4327084030647337 / 2 ^ 37) = 31484"
proof -
  have "\<lfloor>4327084030647337 / 2 ^ 37 + 1 / 2 :: real\<rfloor> = 31484" by (simp add: floor_unique)
  then show ?thesis by (simp add: Math_round_def)
qed

lemma mul_zero: "js_mul (Finite 393546) (Finite 0) = Finite 0"
  by (simp add: roundToDouble_def)

lemma tier3_large_adjustment:
  "calculateTier3_double (Finite 393546) None (Finite 1000000000000) COST_DEFAULTS =
     \<lparr> companyMarginRate_d = Finite (5764607523034235 / 2 ^ 56),
       companyMargin_d = Finite 31484,
       freightRiskRate_d = Finite 0, freightRiskSurcharge_d = Finite 0,
       manualAdjustmentRate_d = Finite 1000000000000,
       manualAdjustment_d = Finite 393546000000000000,
       subtotalBeforeRounding_d = Finite 393546000000425024,
       finalPrice_d = Finite 393546000000425024 \<rparr>"
proof -
  have c: "company_margin_rate COST_DEFAULTS = 8 / 100" by (simp add: COST_DEFAULTS_def)
  have f: "getFreightRiskRate None COST_DEFAULTS = 0" by (simp add: getFreightRiskRate_def)
  have z: "roundToDouble 0 = Finite 0" by (simp add: roundToDouble_def)
  have m1: "Math_round 393546000000000000 = 393546000000000000" "Math_round 0 = 0"
    by (simp_all add: Math_round_def)
  have c1: "Math_ceil 393546000000425 = 393546000000425" by (simp add: Math_ceil_def)
  show ?thesis
    by (simp only: calculateTier3_double_def Let_def c f z ceilTo1000_double_def
          lit_008 mul_margin Math_round_double.simps round_margin mul_zero mul_manual m1
          add_margin add_surcharge add_manual div_subtotal Math_ceil_double.simps c1
          mul_thousands)
qed

lemma rem_final: "js_rem (Finite 393546000000425024) (Finite 1000) = Finite 24"
proof -
  have "\<lfloor>393546000000425024 / 1000 :: real\<rfloor> = 393546000000425" by (simp add: floor_unique)
  then show ?thesis by simp
qed

subsection \<open>The analyzer and the engine on large numbers\<close>

lemma pair_groups:
  "routeGroups [lonelyObservation\<lparr>unitPrice := p\<rparr>, lonelyObservation\<lparr>unitPrice := p\<rparr>] =
     [(''Seoul/A||Busan/B||11t'',
       \<lparr> origin = ''Seoul/A'', destination = ''Busan/B'', vehicleType = ''11t'',
         prices = [p, p] \<rparr>)]"
  "provinceGroups [lonelyObservation\<lparr>unitPrice := p\<rparr>, lonelyObservation\<lparr>unitPrice := p\<rparr>] =
     [(''Seoul||Busan||11t'',
       \<lparr> origin = ''Seoul'', destination = ''Busan'', vehicleType = ''11t'', prices = [p, p] \<rparr>)]"
  by (simp_all add: routeGroups_def provinceGroups_def lonelyObservation_def string_eval)

lemma analyze_pair:
  "map confidenceScore
     (analyzeMarketData [lonelyObservation\<lparr>unitPrice := p\<rparr>, lonelyObservation\<lparr>unitPrice := p\<rparr>])
   = [computeConfidence 2 [p, p] True]"
  by (simp add: analyzeMarketData_def pair_groups computeResults.simps MIN_SAMPLE_SIZE_def
      string_eval fallbackResult_def rawFallbackResult_def Let_def)

lemma hugeObservation_eq: "hugeObservation = lonelyObservation\<lparr>unitPrice := 2 ^ 1023\<rparr>"
  unfolding hugeObservation_def lonelyObservation_def by (simp only: PriceDataPoint.simps)

lemma analyze_huge:
  "map confidenceScore (analyzeMarketData [hugeObservation, hugeObservation])
   = [computeConfidence 2 [2 ^ 1023, 2 ^ 1023] True]"
  unfolding hugeObservation_eq by (rule analyze_pair)

lemma large_distance:
  "getRouteDistance ''Seoul/Gangnam'' ''Busan/Haeundae''
     = \<lparr> distanceKm = 325, source = Lookup \<rparr>"
proof -
  have "extractProvince ''Seoul/Gangnam'' = ''Seoul''"
    "extractProvince ''Busan/Haeundae'' = ''Busan''"
    by (simp_all add: extractProvince_def trim_def isWhitespace_def)
  then show ?thesis
    by (simp add: getRouteDistance_def lookupDistance_def ROAD_DISTANCES_def arrow_def
          corridor_def)
qed

lemma large_tier1:
  "subtotal (calculateTier1 \<lparr> distanceKm = 325, source = Lookup \<rparr> ''11t'' COST_DEFAULTS)
     = 393546"
proof -
  have k: "distanceKm \<lparr> distanceKm = 325, source = Lookup \<rparr> = 325" by simp
  have cs: "fuel_price COST_DEFAULTS = 1650" "toll_rate COST_DEFAULTS = 120"
    "vehicle_fixed_cost COST_DEFAULTS = 150000" "driver_profit_rate COST_DEFAULTS = 15 / 100"
    "fuel_efficiency COST_DEFAULTS = 35 / 10"
    by (simp_all add: COST_DEFAULTS_def)
  have e: "getEfficiency ''11t'' (35 / 10) = 35 / 10"
    by (simp add: getEfficiency_def VEHICLE_EFFICIENCY_def)
  have "\<lfloor>325 / (35 / 10) * 1650 + 1 / 2 :: real\<rfloor> = 153214" by (simp add: floor_unique)
  then have f: "Math_round (325 / (35 / 10) * 1650) = 153214" by (simp add: Math_round_def)
  have t: "Math_round (325 * 120) = 39000" by (simp add: Math_round_def)
  have "\<lfloor>(153214 + 39000 + 150000) * (15 / 100) + 1 / 2 :: real\<rfloor> = 51332"
    by (simp add: floor_unique)
  then have d: "Math_round ((153214 + 39000 + 150000) * (15 / 100)) = 51332"
    by (simp add: Math_round_def)
  show ?thesis
    by (simp only: calculateTier1_def Let_def k cs e f t d Tier1Breakdown.simps)
qed

lemma cost_defaults: "fetchCostVariables (costMaster emptyStore) = COST_DEFAULTS"
  by (simp add: fetchCostVariables_def COST_DEFAULTS_def emptyStore_def)

lemma large_tier2:
  "adjustedPrice (tier2 (calculateFPHPrice emptyStore largeAdjustmentRequest)) = 393546"
proof -
  have h: "findMarketMedian (marketData emptyStore) ''Seoul/Gangnam'' ''Busan/Haeundae'' ''11t''
      = None"
    by (simp add: findMarketMedian_def emptyStore_def)
  show ?thesis
    by (simp add: calculateFPHPrice_def Let_def largeAdjustmentRequest_def cost_defaults h
          large_distance large_tier1 calculateTier2_def)
qed

lemma ceilTo1000_NaN: "ceilTo1000_double NaN = NaN"
  by (simp add: ceilTo1000_double_def)

lemma tier3_infinite:
  "finalPrice_d (calculateTier3_double PlusInfinity None (Finite 0) COST_DEFAULTS) = NaN"
proof -
  have c: "company_margin_rate COST_DEFAULTS = 8 / 100" by (simp add: COST_DEFAULTS_def)
  have f: "getFreightRiskRate None COST_DEFAULTS = 0" by (simp add: getFreightRiskRate_def)
  have z: "roundToDouble 0 = Finite 0" by (simp add: roundToDouble_def)
  have s: "js_mul PlusInfinity (Finite 0) = NaN" by (simp add: signOf_def)
  show ?thesis
    by (simp only: calculateTier3_double_def Let_def c f z s lit_008 Math_round_double.simps
          js_add_NaN ceilTo1000_NaN Tier3Breakdown_double.simps)
qed


section \<open>The claims\<close>






text \<open>
  Claim C3. An exact key with fewer than 5 samples is covered by a fallback result and has
  no non-fallback result; an exact key with at least 5 samples has a non-fallback result.
  Every fallback result belongs to such a small exact key and has
  \<open>fallbackLevel = "province"\<close>; if the province pool has at least 5 prices its statistics
  are those of the IQR filter applied to the pool, otherwise they are computed from the
  pool's prices with no filtering, and \<open>iqr = lowerBound = upperBound = 0\<close>.
\<close>

theorem C3_fallback_trigger:
  "(\<forall>k \<in> exactKeys data.
      if length (samples data k) < MIN_SAMPLE_SIZE
      then (\<exists>r \<in> set (analyzeMarketData data).
              isFallback r \<and> provinceKeyOf r = provinceKeyOfExact data k) \<and>
           \<not> (\<exists>r \<in> set (analyzeMarketData data). \<not> isFallback r \<and> routeKeyOf r = k)
      else (\<exists>r \<in> set (analyzeMarketData data). \<not> isFallback r \<and> routeKeyOf r = k)) \<and>
   (\<forall>r \<in> set (analyzeMarketData data). isFallback r \<longrightarrow>
      fallbackLevel r = Some Province \<and>
      (\<exists>k \<in> exactKeys data. length (samples data k) < MIN_SAMPLE_SIZE \<and>
           provinceKeyOf r = provinceKeyOfExact data k) \<and>
      (let pool = provincePool data (provinceKeyOf r)
       in if MIN_SAMPLE_SIZE \<le> length pool then filteredStats pool r
          else rawStats pool r \<and> iqr r = 0 \<and> lowerBound r = 0 \<and> upperBound r = 0))"
proof (intro conjI ballI)
  fix k assume k: "k \<in> exactKeys data"
  show "if length (samples data k) < MIN_SAMPLE_SIZE
      then (\<exists>r \<in> set (analyzeMarketData data).
              isFallback r \<and> provinceKeyOf r = provinceKeyOfExact data k) \<and>
           \<not> (\<exists>r \<in> set (analyzeMarketData data). \<not> isFallback r \<and> routeKeyOf r = k)
      else (\<exists>r \<in> set (analyzeMarketData data). \<not> isFallback r \<and> routeKeyOf r = k)"
  proof (cases "length (samples data k) < MIN_SAMPLE_SIZE")
    case True
    from filter_length_one_ex [OF fallback_count [OF k True]]
    have "\<exists>r \<in> set (analyzeMarketData data).
              isFallback r \<and> provinceKeyOf r = provinceKeyOfExact data k"
      by (simp add: analyze_set)
    moreover have "\<not> (\<exists>r \<in> set (analyzeMarketData data). \<not> isFallback r \<and> routeKeyOf r = k)"
    proof
      assume "\<exists>r \<in> set (analyzeMarketData data). \<not> isFallback r \<and> routeKeyOf r = k"
      then obtain r where r: "r \<in> set (unsortedResults data)" "\<not> isFallback r" "routeKeyOf r = k"
        by (auto simp: analyze_set)
      from results_origin [OF r(1)] r(2,3) have "MIN_SAMPLE_SIZE \<le> length (samples data k)"
        by auto
      with True show False by simp
    qed
    ultimately show ?thesis using True by simp
  next
    case False
    then have "MIN_SAMPLE_SIZE \<le> length (samples data k)" by simp
    from filter_length_one_ex [OF exact_count [OF k this]] False
    show ?thesis by (simp add: analyze_set)
  qed
next
  fix r assume "r \<in> set (analyzeMarketData data)"
  then have r: "r \<in> set (unsortedResults data)" by (simp add: analyze_set)
  show "isFallback r \<longrightarrow>
      fallbackLevel r = Some Province \<and>
      (\<exists>k \<in> exactKeys data. length (samples data k) < MIN_SAMPLE_SIZE \<and>
           provinceKeyOf r = provinceKeyOfExact data k) \<and>
      (let pool = provincePool data (provinceKeyOf r)
       in if MIN_SAMPLE_SIZE \<le> length pool then filteredStats pool r
          else rawStats pool r \<and> iqr r = 0 \<and> lowerBound r = 0 \<and> upperBound r = 0)"
  proof
    assume fb: "isFallback r"
    with result_description [OF r]
    show "fallbackLevel r = Some Province \<and>
      (\<exists>k \<in> exactKeys data. length (samples data k) < MIN_SAMPLE_SIZE \<and>
           provinceKeyOf r = provinceKeyOfExact data k) \<and>
      (let pool = provincePool data (provinceKeyOf r)
       in if MIN_SAMPLE_SIZE \<le> length pool then filteredStats pool r
          else rawStats pool r \<and> iqr r = 0 \<and> lowerBound r = 0 \<and> upperBound r = 0)"
      by (auto simp: Let_def rawStats_def not_le split: if_splits)
  qed
qed

text \<open>C3 on the example data (a large province pool) and on a single observation.\<close>

theorem C3_witness:
  "''Seoul/Songpa||Busan/Saha||11t'' \<in> exactKeys demoData \<and>
   length (samples demoData ''Seoul/Songpa||Busan/Saha||11t'') < MIN_SAMPLE_SIZE \<and>
   (\<exists>r \<in> set (analyzeMarketData demoData).
      isFallback r \<and> provinceKeyOf r = ''Seoul||Busan||11t'') \<and>
   provinceResult \<in> set (analyzeMarketData demoData) \<and> isFallback provinceResult \<and>
   MIN_SAMPLE_SIZE \<le> length (provincePool demoData (provinceKeyOf provinceResult)) \<and>
   filteredStats (provincePool demoData (provinceKeyOf provinceResult)) provinceResult \<and>
   lonelyResult \<in> set (analyzeMarketData [lonelyObservation]) \<and> isFallback lonelyResult \<and>
   \<not> MIN_SAMPLE_SIZE \<le> length (provincePool [lonelyObservation] (provinceKeyOf lonelyResult)) \<and>
   rawStats (provincePool [lonelyObservation] (provinceKeyOf lonelyResult)) lonelyResult \<and>
   iqr lonelyResult = 0 \<and> lowerBound lonelyResult = 0 \<and> upperBound lonelyResult = 0"
proof -
  note d = C3_fallback_trigger [of demoData]
  note l = C3_fallback_trigger [of "[lonelyObservation]"]
  have k: "''Seoul/Songpa||Busan/Saha||11t'' \<in> exactKeys demoData"
    "length (samples demoData ''Seoul/Songpa||Busan/Saha||11t'') < MIN_SAMPLE_SIZE"
    by (simp_all add: demo_keys MIN_SAMPLE_SIZE_def)
  from d [THEN conjunct1, THEN bspec, OF k(1)] k(2)
  have "\<exists>r \<in> set (analyzeMarketData demoData).
      isFallback r \<and> provinceKeyOf r = provinceKeyOfExact demoData ''Seoul/Songpa||Busan/Saha||11t''"
    by simp
  then have 1: "\<exists>r \<in> set (analyzeMarketData demoData).
      isFallback r \<and> provinceKeyOf r = ''Seoul||Busan||11t''"
    by (simp only: demo_keys(4))
  have m: "provinceResult \<in> set (analyzeMarketData demoData)" "isFallback provinceResult"
    by (simp_all add: analyze_demo provinceResult_def)
  have pk: "provinceKeyOf provinceResult = ''Seoul||Busan||11t''"
    by (simp add: provinceResult_def string_eval)
  have big: "MIN_SAMPLE_SIZE \<le> length (provincePool demoData (provinceKeyOf provinceResult))"
    by (simp add: pk demo_keys(5) MIN_SAMPLE_SIZE_def)
  from d [THEN conjunct2, THEN bspec, OF m(1), THEN mp, OF m(2), THEN conjunct2, THEN conjunct2]
  have "let pool = provincePool demoData (provinceKeyOf provinceResult)
       in if MIN_SAMPLE_SIZE \<le> length pool then filteredStats pool provinceResult
          else rawStats pool provinceResult \<and> iqr provinceResult = 0 \<and>
               lowerBound provinceResult = 0 \<and> upperBound provinceResult = 0" .
  with big have 2: "filteredStats (provincePool demoData (provinceKeyOf provinceResult)) provinceResult"
    by (simp add: Let_def)
  have m': "lonelyResult \<in> set (analyzeMarketData [lonelyObservation])" "isFallback lonelyResult"
    by (simp_all add: analyze_lonely lonelyResult_def)
  have small: "\<not> MIN_SAMPLE_SIZE \<le> length (provincePool [lonelyObservation] (provinceKeyOf lonelyResult))"
    by (simp add: provincePool_def lonelyResult_def lonelyObservation_def string_eval
        MIN_SAMPLE_SIZE_def)
  from l [THEN conjunct2, THEN bspec, OF m'(1), THEN mp, OF m'(2), THEN conjunct2, THEN conjunct2]
  have "let pool = provincePool [lonelyObservation] (provinceKeyOf lonelyResult)
       in if MIN_SAMPLE_SIZE \<le> length pool then filteredStats pool lonelyResult
          else rawStats pool lonelyResult \<and> iqr lonelyResult = 0 \<and>
               lowerBound lonelyResult = 0 \<and> upperBound lonelyResult = 0" .
  with small have 3: "rawStats (provincePool [lonelyObservation] (provinceKeyOf lonelyResult)) lonelyResult"
    "iqr lonelyResult = 0" "lowerBound lonelyResult = 0" "upperBound lonelyResult = 0"
    by (simp_all add: Let_def)
  from k 1 m big 2 m' small 3 show ?thesis by (intro conjI) assumption+
qed

text \<open>
  Claim C4. The confidence score is said to lie in \<open>[0, 1]\<close> for every non-negative
  sample size and every finite list of filtered values. The formula does so over the
  reals (\<open>confidence_range\<close>), and the code announces ``a 0--1 confidence score''; in
  double precision it does not deliver it. For two observations of one route with a price
  of \<open>2 ^ 1023\<close> (about \<open>8.99e307\<close>, a finite double) the analyzer calls
  \<^verbatim>\<open>computeConfidence(2, [p, p], true)\<close>. There the sum of the \<^verbatim>\<open>reduce\<close> overflows to
  \<^verbatim>\<open>Infinity\<close>, the mean and the variance are \<^verbatim>\<open>Infinity\<close>, the coefficient of variation is
  \<^verbatim>\<open>Infinity / Infinity\<close>, that is NaN, and \<^verbatim>\<open>Math.max(0, 1 - NaN)\<close> is NaN: the score is
  NaN, for every sample size and either fallback status.
\<close>

theorem C4_confidence_is_NaN_on_overflow:
  "map confidenceScore (analyzeMarketData [hugeObservation, hugeObservation])
     = [computeConfidence 2 [2 ^ 1023, 2 ^ 1023] True] \<and>
   foldl (\<lambda>a b. js_add a b) (Finite 0) [Finite (2 ^ 1023), Finite (2 ^ 1023)] = PlusInfinity \<and>
   computeConfidence_double n [Finite (2 ^ 1023), Finite (2 ^ 1023)] fb = NaN"
proof (intro conjI)
  show "map confidenceScore (analyzeMarketData [hugeObservation, hugeObservation])
     = [computeConfidence 2 [2 ^ 1023, 2 ^ 1023] True]"
    by (rule analyze_huge)
  show "foldl (\<lambda>a b. js_add a b) (Finite 0) [Finite (2 ^ 1023), Finite (2 ^ 1023)] = PlusInfinity"
    by (simp only: foldl.simps sum_overflows)
  show "computeConfidence_double n [Finite (2 ^ 1023), Finite (2 ^ 1023)] fb = NaN"
    by (rule confidence_overflow)
qed

text \<open>
  Claim C5. When \<open>findMarketMedian\<close> finds no market result (it returns \<^verbatim>\<open>null\<close> exactly
  when the analysis has neither a result for the exact origin and destination nor a
  fallback result for their provinces), Tier 2 passes Tier 1 through:
  \<open>adjustedPrice = tier1.subtotal\<close>, \<open>confidenceScore = 0\<close>, \<open>hasMarketData = false\<close>.
\<close>

theorem C5_tier2_pass_through:
  "(findMarketMedian (marketData store) (origin inp) (destination inp) (vehicleType inp) = None
      \<longrightarrow>
      adjustedPrice (tier2 (calculateFPHPrice store inp))
        = subtotal (tier1 (calculateFPHPrice store inp)) \<and>
      confidenceScore' (tier2 (calculateFPHPrice store inp)) = 0 \<and>
      \<not> hasMarketData (tier2 (calculateFPHPrice store inp))) \<and>
   (findMarketMedian table a b v = None \<longleftrightarrow>
      \<not> (\<exists>r \<in> set (analyzeMarketData (filter (\<lambda>d. vehicleType d = v) table)).
           origin r = a \<and> destination r = b) \<and>
      \<not> (\<exists>r \<in> set (analyzeMarketData (filter (\<lambda>d. vehicleType d = v) table)).
           isFallback r \<and> origin r = extractProvince a \<and> destination r = extractProvince b)) \<and>
   adjustedPrice (calculateTier2 tier1Base None) = tier1Base \<and>
   confidenceScore' (calculateTier2 tier1Base None) = 0 \<and>
   \<not> hasMarketData (calculateTier2 tier1Base None)"
  using findMarketMedian_None_iff [of table a b v]
  by (simp add: calculateFPHPrice_def calculateTier2_def Let_def)

text \<open>C5 on a store without market data.\<close>

theorem C5_witness:
  "findMarketMedian (marketData emptyStore) (origin demoRequest) (destination demoRequest)
     (vehicleType demoRequest) = None \<and>
   adjustedPrice (tier2 (calculateFPHPrice emptyStore demoRequest))
     = subtotal (tier1 (calculateFPHPrice emptyStore demoRequest))"
proof -
  have h: "findMarketMedian (marketData emptyStore) (origin demoRequest) (destination demoRequest)
     (vehicleType demoRequest) = None"
    by (simp add: findMarketMedian_def emptyStore_def)
  with C5_tier2_pass_through [of emptyStore demoRequest] show ?thesis by simp
qed

text \<open>
  Claim C6. The final price is said to be \<open>ceil(subtotal / 1000) \<cdot> 1000\<close> and a multiple of
  1000 for all inputs, and the code announces that it ``is ALWAYS rounded UP to the nearest
  1,000 KRW''. Over the reals \<open>ceilTo1000\<close> does that (\<open>ceilTo1000_bounds\<close>). In double
  precision the product \<^verbatim>\<open>Math.ceil(value / 1000) * 1000\<close> is rounded once more, and above
  \<open>2 ^ 53\<close> it need not be a multiple of 1000: at \<open>100000000000000016\<close> the code returns
  \<open>100000000000000992\<close>, below the multiple \<open>100000000000001000\<close> that rounding up gives.
  Such a subtotal is reached by a request with a large manual adjustment rate: the
  request from Seoul/Gangnam to Busan/Haeundae for an 11t vehicle, with default costs and
  no market data, has a Tier 2 price of \<open>393546\<close>, and with a rate of \<open>1e12\<close> its final price
  is \<open>393546000000425024\<close>: \<^verbatim>\<open>finalPrice % 1000\<close> is \<open>24\<close>. A subtotal that is NaN is
  returned as NaN, and an infinite Tier 2 price (a fuel efficiency of 0 for a vehicle type
  outside the table) gives a final price of NaN.
\<close>

theorem C6_final_price_not_multiple_of_1000:
  "ceilTo1000_double (Finite 100000000000000016) = Finite 100000000000000992 \<and>
   js_rem (ceilTo1000_double (Finite 100000000000000016)) (Finite 1000) = Finite 992 \<and>
   ceilTo1000 100000000000000016 = 100000000000001000 \<and>
   adjustedPrice (tier2 (calculateFPHPrice emptyStore largeAdjustmentRequest)) = 393546 \<and>
   manualAdjustmentRate largeAdjustmentRequest = Some 1000000000000 \<and>
   subtotalBeforeRounding_d
     (calculateTier3_double (Finite 393546) (freightType largeAdjustmentRequest)
        (Finite 1000000000000) (fetchCostVariables (costMaster emptyStore)))
     = Finite 393546000000425024 \<and>
   finalPrice_d
     (calculateTier3_double (Finite 393546) (freightType largeAdjustmentRequest)
        (Finite 1000000000000) (fetchCostVariables (costMaster emptyStore)))
     = Finite 393546000000425024 \<and>
   js_rem
     (finalPrice_d
        (calculateTier3_double (Finite 393546) (freightType largeAdjustmentRequest)
           (Finite 1000000000000) (fetchCostVariables (costMaster emptyStore))))
     (Finite 1000) = Finite 24 \<and>
   ceilTo1000_double NaN = NaN \<and>
   finalPrice_d (calculateTier3_double PlusInfinity None (Finite 0) COST_DEFAULTS) = NaN"
proof -
  have "\<lceil>100000000000000016 / 1000 :: real\<rceil> = 100000000000001" by (simp add: ceiling_unique)
  then have exact: "ceilTo1000 100000000000000016 = 100000000000001000"
    by (simp add: ceilTo1000_def Math_ceil_def)
  have ft: "freightType largeAdjustmentRequest = None"
    and rate: "manualAdjustmentRate largeAdjustmentRequest = Some 1000000000000"
    by (simp_all add: largeAdjustmentRequest_def)
  show ?thesis
    by (simp only: ceilTo1000_large rem_large exact large_tier2 ft rate cost_defaults
          tier3_large_adjustment rem_final Tier3Breakdown_double.simps ceilTo1000_NaN
          tier3_infinite simp_thms)
qed

text \<open>
  Claim C7. \<open>getRouteDistance(a, b).distanceKm = getRouteDistance(b, a).distanceKm\<close> for
  all strings; the corridor lookup and the haversine estimate are symmetric; and the
  distance between \<open>Seoul/X\<close> and \<open>Busan/Y\<close> is 325 in both directions.
\<close>

theorem C7_distance_symmetry:
  "distanceKm (getRouteDistance a b) = distanceKm (getRouteDistance b a) \<and>
   lookupDistance p q = lookupDistance q p \<and>
   haversineKm c1 c2 = haversineKm c2 c1 \<and>
   distanceKm (getRouteDistance ''Seoul/X'' ''Busan/Y'') = 325 \<and>
   distanceKm (getRouteDistance ''Busan/Y'' ''Seoul/X'') = 325"
  using getRouteDistance_sym [of a b] lookupDistance_sym [of p q] haversineKm_sym [of c1 c2]
  by (simp add: getRouteDistance_examples)

text \<open>
  Claim C8. A failing request is said to be captured as an error entry and never to abort
  the batch. The \<^verbatim>\<open>catch\<close> block does that for every request whose properties can be read
  (\<open>runBatchSimulation_eq\<close>, \<open>batch_count\<close>, \<open>failures_at\<close>), and it provides for a missing
  origin or destination with \<^verbatim>\<open>?? "?"\<close>. It does not provide for an element that is
  \<^verbatim>\<open>null\<close> or \<^verbatim>\<open>undefined\<close>: the pricing call throws, the label of the error entry reads
  \<^verbatim>\<open>input.origin\<close> and throws again, and this second error leaves the loop. Whatever the
  pricing runs do, a batch with such an element is rejected as a whole: no result and no
  error entry is returned, and the requests after it are not priced. On the example batch
  the third request would have been priced.
\<close>

theorem C8_batch_rejects_on_nullish_request:
  "runBatchSimulation calc (front @ Nullish # rest) = Inl TypeError \<and>
   runBatchSimulation demoCalc demoBatch = Inl TypeError \<and>
   tryCalculate demoCalc 2 (demoBatch ! 2)
     = Inr (calculateFPHPrice emptyStore
              \<lparr> origin = ''Incheon/Namdong'', destination = ''Gwangju/Buk'',
                vehicleType = ''11t'', freightType = None, manualAdjustmentRate = None \<rparr>)"
proof (intro conjI)
  show "runBatchSimulation calc (front @ Nullish # rest) = Inl TypeError"
    by (rule runBatchSimulation_nullish) simp
  show "runBatchSimulation demoCalc demoBatch = Inl TypeError"
    by (rule runBatchSimulation_nullish) (simp add: demoBatch_def)
  show "tryCalculate demoCalc 2 (demoBatch ! 2)
     = Inr (calculateFPHPrice emptyStore
              \<lparr> origin = ''Incheon/Namdong'', destination = ''Gwangju/Buk'',
                vehicleType = ''11t'', freightType = None, manualAdjustmentRate = None \<rparr>)"
    by (simp add: tryCalculate_def demoBatch_def demoCalc_def)
qed



text \<open>
  Claim C10. \<open>getFreightRiskRate\<close> gives the fragile rate if a fragile keyword occurs in
  the freight type, else the refrigerated rate if a refrigerated keyword occurs, else the
  hazardous rate if a hazardous keyword occurs, else 0; a keyword occurs if it is a
  substring up to the case of the letters; an absent freight type gives 0; and
  \<open>Frozen Glass\<close>, which has keywords of two sets, gets the fragile rate.
\<close>

theorem C10_freight_risk_order:
  "getFreightRiskRate ft costs =
     (case ft of
        None \<Rightarrow> 0
      | Some s \<Rightarrow>
          if matchesAny s fragileKeywords then freight_risk_fragile costs
          else if matchesAny s refrigeratedKeywords then freight_risk_refrigerated costs
          else if matchesAny s hazardousKeywords then freight_risk_hazardous costs
          else 0) \<and>
   getFreightRiskRate (Some ''Frozen Glass'') costs = freight_risk_fragile costs"
proof
  show "getFreightRiskRate (Some ''Frozen Glass'') costs = freight_risk_fragile costs"
    by (rule freight_frozen_glass)
  show "getFreightRiskRate ft costs =
     (case ft of
        None \<Rightarrow> 0
      | Some s \<Rightarrow>
          if matchesAny s fragileKeywords then freight_risk_fragile costs
          else if matchesAny s refrigeratedKeywords then freight_risk_refrigerated costs
          else if matchesAny s hazardousKeywords then freight_risk_hazardous costs
          else 0)"
    by (rule getFreightRiskRate_cases)
qed

text \<open>C10 on a freight type that matches a refrigerated keyword only.\<close>

theorem C10_witness:
  "matchesAny ''Frozen food'' refrigeratedKeywords \<and>
   \<not> matchesAny ''Frozen food'' fragileKeywords \<and>
   getFreightRiskRate (Some ''Frozen food'') COST_DEFAULTS = 15 / 100"
  using C10_freight_risk_order [of "Some ''Frozen food''" COST_DEFAULTS]
    matches_frozen no_fragile_in_frozen
  by (simp add: COST_DEFAULTS_def)

end
